theory Spec2Isabelle
  imports Main
begin

section \<open>Python strings\<close>

text \<open>
  A Python \<open>str\<close> is a sequence of Unicode code points, and \<open>len\<close>, slicing and the
  regular expressions of the analyst count code points. The headings and markers of
  \<open>requirement_analyst.py\<close> are Chinese, so a string is a list of code points
  (\<open>ord\<close> of each character); \<open>asc\<close> embeds an ASCII literal. Non-ASCII literals are
  written as their code points, with the text named beside them.
\<close>

type_synonym ustr = "nat list"

definition asc :: "string \<Rightarrow> ustr" where
  "asc s = map of_char s"

text \<open>
  \<open>str.isspace\<close>, which is also what \<open>str.strip()\<close> removes and what \<open>\s\<close> matches in
  a \<open>str\<close> pattern: the 29 code points CPython lists as whitespace.
\<close>

definition is_space :: "nat \<Rightarrow> bool" where
  "is_space c =
     (c \<in> set [9, 10, 11, 12, 13, 28, 29, 30, 31, 32, 133, 160, 5760, 8232, 8233, 8239, 8287, 12288]
      \<or> (8192 \<le> c \<and> c \<le> 8202))"

definition str_strip :: "ustr \<Rightarrow> ustr" where
  "str_strip s = rev (dropWhile is_space (rev (dropWhile is_space s)))"

fun str_startswith :: "ustr \<Rightarrow> ustr \<Rightarrow> bool" where
  "str_startswith s [] = True"
| "str_startswith [] (p # ps) = False"
| "str_startswith (c # cs) (p # ps) = (c = p \<and> str_startswith cs ps)"

definition str_endswith :: "ustr \<Rightarrow> ustr \<Rightarrow> bool" where
  "str_endswith s p = str_startswith (rev s) (rev p)"

text \<open>\<open>p in s\<close> for strings: \<open>p\<close> occurs in \<open>s\<close> as a substring.\<close>

fun str_contains :: "ustr \<Rightarrow> ustr \<Rightarrow> bool" where
  "str_contains [] p = (p = [])"
| "str_contains (c # cs) p = (str_startswith (c # cs) p \<or> str_contains cs p)"

text \<open>\<open>s.find(p)\<close>: the lowest index of an occurrence; \<open>None\<close> stands for Python's \<open>-1\<close>.\<close>

fun find_from :: "ustr \<Rightarrow> ustr \<Rightarrow> nat \<Rightarrow> nat option" where
  "find_from [] p i = (if p = [] then Some i else None)"
| "find_from (c # cs) p i = (if str_startswith (c # cs) p then Some i else find_from cs p (i + 1))"

definition str_find :: "ustr \<Rightarrow> ustr \<Rightarrow> nat option" where
  "str_find s p = find_from s p 0"

text \<open>\<open>s.rfind(p)\<close>: the highest index of an occurrence, \<open>-1\<close> when there is none.\<close>

fun rfind_from :: "ustr \<Rightarrow> ustr \<Rightarrow> nat \<Rightarrow> int \<Rightarrow> int" where
  "rfind_from [] p i found = (if p = [] then int i else found)"
| "rfind_from (c # cs) p i found =
     rfind_from cs p (i + 1) (if str_startswith (c # cs) p then int i else found)"

definition str_rfind :: "ustr \<Rightarrow> ustr \<Rightarrow> int" where
  "str_rfind s p = rfind_from s p 0 (- 1)"

text \<open>\<open>s.replace(a, new)\<close> for a one-character \<open>a\<close> (the only use the analyst makes of it).\<close>

definition str_replace :: "nat \<Rightarrow> ustr \<Rightarrow> ustr \<Rightarrow> ustr" where
  "str_replace a new s = concat (map (\<lambda>c. if c = a then new else [c]) s)"

text \<open>\<open>s.split(sep)\<close> for a one-character separator: always at least one piece.\<close>

fun str_split :: "nat \<Rightarrow> ustr \<Rightarrow> ustr list" where
  "str_split sep [] = [[]]"
| "str_split sep (c # cs) =
     (if c = sep then [] # str_split sep cs
      else (case str_split sep cs of [] \<Rightarrow> [[c]] | p # ps \<Rightarrow> (c # p) # ps))"

text \<open>
  \<open>s.split(sep, 1)[1]\<close>: the text after the first separator; \<open>None\<close> is the
  \<open>IndexError\<close> of a string without the separator.
\<close>

fun split1_second :: "nat \<Rightarrow> ustr \<Rightarrow> ustr option" where
  "split1_second sep [] = None"
| "split1_second sep (c # cs) = (if c = sep then Some cs else split1_second sep cs)"

text \<open>\<open>s[a:b]\<close> for \<open>0 \<le> a\<close>, \<open>0 \<le> b\<close>.\<close>

definition slice :: "ustr \<Rightarrow> nat \<Rightarrow> nat \<Rightarrow> ustr" where
  "slice s a b = take (b - a) (drop a s)"

text \<open>
  The format \<open>f"TS{n:03d}"\<close>: the decimal digits of \<open>n\<close>, padded with zeros on the left to
  at least three characters.
\<close>

fun digits :: "nat \<Rightarrow> ustr" where
  "digits n = (if n < 10 then [48 + n] else digits (n div 10) @ [48 + n mod 10])"

declare digits.simps [simp del]

definition fmt03d :: "nat \<Rightarrow> ustr" where
  "fmt03d n = replicate (3 - length (digits n)) 48 @ digits n"

definition ts_label :: "nat \<Rightarrow> ustr" where
  "ts_label n = asc ''TS'' @ fmt03d n"

section \<open>Regular expressions\<close>

text \<open>
  The patterns of the analyst, as Python's \<open>re\<close> matches them: a backtracking matcher
  that tries the alternatives of a pattern in Python's order (the left branch of \<open>|\<close>
  first, a greedy star the longest run first, a lazy star the shortest first) and returns
  the first way to match. \<open>Chr P\<close> is one character of a class, \<open>Star P\<close> and \<open>Lazy P\<close>
  are \<open>[...]*\<close> and \<open>[...]*?\<close> over a class (every star of the source is over a
  class), \<open>Grp n r\<close> is the capture group \<open>n\<close>, \<open>Bol\<close> is \<open>^\<close> and \<open>Eol\<close> is \<open>$\<close>
  (the end of the string, or just before a final newline). \<open>Close\<close> is internal: it
  marks the end of an open group on the list of what is still to match.
\<close>

datatype rx =
    Chr "nat \<Rightarrow> bool"
  | Seq rx rx
  | Alt rx rx
  | Eps
  | Star "nat \<Rightarrow> bool"
  | Lazy "nat \<Rightarrow> bool"
  | Grp nat rx
  | Close nat nat
  | Bol
  | Eol

text \<open>A group's span: its number, start and end as indices of the whole string.\<close>

type_synonym caps = "(nat \<times> nat \<times> nat) list"

fun weight :: "rx \<Rightarrow> nat" where
  "weight (Seq a b) = Suc (weight a + weight b)"
| "weight (Alt a b) = Suc (weight a + weight b)"
| "weight (Grp n a) = Suc (Suc (weight a))"
| "weight _ = 1"

text \<open>
  \<open>rx_match k i s g\<close>: match the patterns of \<open>k\<close>, one after the other, against \<open>s\<close>, the
  rest of the string from index \<open>i\<close>; the result is the end index and the groups.
\<close>

function rx_match :: "rx list \<Rightarrow> nat \<Rightarrow> ustr \<Rightarrow> caps \<Rightarrow> (nat \<times> caps) option" where
  "rx_match [] i s g = Some (i, g)"
| "rx_match (Chr P # k) i [] g = None"
| "rx_match (Chr P # k) i (c # cs) g = (if P c then rx_match k (i + 1) cs g else None)"
| "rx_match (Seq a b # k) i s g = rx_match (a # b # k) i s g"
| "rx_match (Alt a b # k) i s g =
     (case rx_match (a # k) i s g of Some m \<Rightarrow> Some m | None \<Rightarrow> rx_match (b # k) i s g)"
| "rx_match (Eps # k) i s g = rx_match k i s g"
| "rx_match (Star P # k) i [] g = rx_match k i [] g"
| "rx_match (Star P # k) i (c # cs) g =
     (if P c then (case rx_match (Star P # k) (i + 1) cs g of Some m \<Rightarrow> Some m
                   | None \<Rightarrow> rx_match k i (c # cs) g)
      else rx_match k i (c # cs) g)"
| "rx_match (Lazy P # k) i [] g = rx_match k i [] g"
| "rx_match (Lazy P # k) i (c # cs) g =
     (case rx_match k i (c # cs) g of Some m \<Rightarrow> Some m
      | None \<Rightarrow> if P c then rx_match (Lazy P # k) (i + 1) cs g else None)"
| "rx_match (Grp n a # k) i s g = rx_match (a # Close n i # k) i s g"
| "rx_match (Close n i0 # k) i s g = rx_match k i s ((n, i0, i) # g)"
| "rx_match (Bol # k) i s g = (if i = 0 then rx_match k i s g else None)"
| "rx_match (Eol # k) i s g = (if s = [] \<or> s = [10] then rx_match k i s g else None)"
  by pat_completeness auto
termination
  by (relation "measures [\<lambda>(k, i, s, g). length s, \<lambda>(k, i, s, g). sum_list (map weight k)]") auto

text \<open>A literal, a sequence of patterns, and \<open>r?\<close>.\<close>

fun lit :: "ustr \<Rightarrow> rx" where
  "lit [] = Eps"
| "lit (c # cs) = Seq (Chr (\<lambda>x. x = c)) (lit cs)"

fun seqs :: "rx list \<Rightarrow> rx" where
  "seqs [] = Eps"
| "seqs [r] = r"
| "seqs (r # rs) = Seq r (seqs rs)"

definition opt :: "rx \<Rightarrow> rx" where
  "opt r = Alt r Eps"

text \<open>A match: where it starts, where it ends, and its groups.\<close>

type_synonym mres = "nat \<times> nat \<times> caps"

text \<open>\<open>m.group(n)\<close> of a match in \<open>s\<close>; \<open>group 0\<close> is the whole match.\<close>

definition group :: "ustr \<Rightarrow> mres \<Rightarrow> nat \<Rightarrow> ustr" where
  "group s m n =
     (if n = 0 then slice s (fst m) (fst (snd m))
      else case map_of (snd (snd m)) n of None \<Rightarrow> [] | Some (a, b) \<Rightarrow> slice s a b)"

text \<open>\<open>re.match\<close>: at the start of the string only.\<close>

definition re_match :: "rx \<Rightarrow> ustr \<Rightarrow> mres option" where
  "re_match r s = (case rx_match [r] 0 s [] of None \<Rightarrow> None | Some (j, g) \<Rightarrow> Some (0, j, g))"

text \<open>\<open>re.search\<close>: the match at the leftmost index that has one.\<close>

fun search_from :: "rx \<Rightarrow> nat \<Rightarrow> ustr \<Rightarrow> mres option" where
  "search_from r i [] =
     (case rx_match [r] i [] [] of None \<Rightarrow> None | Some (j, g) \<Rightarrow> Some (i, j, g))"
| "search_from r i (c # cs) =
     (case rx_match [r] i (c # cs) [] of None \<Rightarrow> search_from r (i + 1) cs
      | Some (j, g) \<Rightarrow> Some (i, j, g))"

definition re_search :: "rx \<Rightarrow> ustr \<Rightarrow> mres option" where
  "re_search r s = search_from r 0 s"

text \<open>
  \<open>re.finditer\<close>: the matches from left to right, each search starting where the last
  match ended (\<open>skip\<close> counts the characters of the last match still to pass). No pattern
  of the analyst matches the empty string.
\<close>

fun scan_all :: "rx \<Rightarrow> nat \<Rightarrow> nat \<Rightarrow> ustr \<Rightarrow> mres list" where
  "scan_all r i skip [] =
     (if skip = 0
      then (case rx_match [r] i [] [] of None \<Rightarrow> [] | Some (j, g) \<Rightarrow> [(i, j, g)])
      else [])"
| "scan_all r i skip (c # cs) =
     (if 0 < skip then scan_all r (i + 1) (skip - 1) cs
      else case rx_match [r] i (c # cs) [] of None \<Rightarrow> scan_all r (i + 1) 0 cs
           | Some (j, g) \<Rightarrow> (i, j, g) # scan_all r (i + 1) (j - i - 1) cs)"

text \<open>\<open>re.findall\<close> of a pattern whose result is its group \<open>n\<close> (the whole match for 0).\<close>

definition re_findall :: "rx \<Rightarrow> nat \<Rightarrow> ustr \<Rightarrow> ustr list" where
  "re_findall r n s = map (\<lambda>m. group s m n) (scan_all r 0 0 s)"

text \<open>
  \<open>re.sub\<close>: every match replaced by the template, which is given as a function of the
  groups of the match; the text between the matches is kept.
\<close>

fun sub_scan :: "rx \<Rightarrow> (mres \<Rightarrow> ustr) \<Rightarrow> nat \<Rightarrow> nat \<Rightarrow> ustr \<Rightarrow> ustr" where
  "sub_scan r f i skip [] =
     (if skip = 0
      then (case rx_match [r] i [] [] of None \<Rightarrow> [] | Some (j, g) \<Rightarrow> f (i, j, g))
      else [])"
| "sub_scan r f i skip (c # cs) =
     (if 0 < skip then sub_scan r f (i + 1) (skip - 1) cs
      else case rx_match [r] i (c # cs) [] of None \<Rightarrow> c # sub_scan r f (i + 1) 0 cs
           | Some (j, g) \<Rightarrow>
               if j = i then f (i, j, g) @ c # sub_scan r f (i + 1) 0 cs
               else f (i, j, g) @ sub_scan r f (i + 1) (j - i - 1) cs)"

definition re_sub :: "rx \<Rightarrow> ((nat \<Rightarrow> ustr) \<Rightarrow> ustr) \<Rightarrow> ustr \<Rightarrow> ustr" where
  "re_sub r tmpl s = sub_scan r (\<lambda>m. tmpl (group s m)) 0 0 s"

text \<open>\<open>re.split\<close> by a one-character class: the pieces between its characters.\<close>

fun re_split :: "(nat \<Rightarrow> bool) \<Rightarrow> ustr \<Rightarrow> ustr list" where
  "re_split P [] = [[]]"
| "re_split P (c # cs) =
     (if P c then [] # re_split P cs
      else (case re_split P cs of [] \<Rightarrow> [[c]] | p # ps \<Rightarrow> (c # p) # ps))"

text \<open>The classes: \<open>[\s\S]\<close> and the dot under \<open>re.DOTALL\<close>; the dot; one character; a set.\<close>

definition rx_any :: "nat \<Rightarrow> bool" where
  "rx_any c = True"

definition rx_dot :: "nat \<Rightarrow> bool" where
  "rx_dot c = (c \<noteq> 10)"

definition is_chr :: "nat \<Rightarrow> nat \<Rightarrow> bool" where
  "is_chr a c = (c = a)"

definition one_of :: "ustr \<Rightarrow> nat \<Rightarrow> bool" where
  "one_of cs c = (c \<in> set cs)"

definition none_of :: "ustr \<Rightarrow> nat \<Rightarrow> bool" where
  "none_of cs c = (c \<notin> set cs)"

definition ascii_letter :: "nat \<Rightarrow> bool" where
  "ascii_letter c = ((97 \<le> c \<and> c \<le> 122) \<or> (65 \<le> c \<and> c \<le> 90))"

definition ascii_digit :: "nat \<Rightarrow> bool" where
  "ascii_digit c = (48 \<le> c \<and> c \<le> 57)"

section \<open>Python values\<close>

text \<open>
  What the analyst handles: the values \<open>json.loads\<close> produces, and \<open>TestScenario\<close>
  objects. A \<open>dict\<close> is an association list in insertion order; \<open>map_of\<close> is the lookup.
  A float is kept as \<open>m * 10 ^ e\<close>, the decimal value of its literal (CPython rounds it
  to a binary64).

  Modelled from the spec: \<open>TestScenario\<close> is declared in \<open>src/schemas/communication.py\<close>,
  which is not among the sources. The spec gives it three fields, \<open>id\<close>, \<open>description\<close>
  and \<open>test_cases\<close>; the constructor stores its three arguments as they are given.
\<close>

datatype pyval =
    PNone
  | PBool bool
  | PInt int
  | PFloat int int
  | PStr ustr
  | PList "pyval list"
  | PDict "(ustr \<times> pyval) list"
  | TestScenario pyval pyval pyval

type_synonym pydict = "(ustr \<times> pyval) list"

text \<open>Python's truth value of an object (\<open>not x\<close> is its negation).\<close>

fun truthy :: "pyval \<Rightarrow> bool" where
  "truthy PNone = False"
| "truthy (PBool b) = b"
| "truthy (PInt i) = (i \<noteq> 0)"
| "truthy (PFloat m e) = (m \<noteq> 0)"
| "truthy (PStr s) = (s \<noteq> [])"
| "truthy (PList xs) = (xs \<noteq> [])"
| "truthy (PDict kvs) = (kvs \<noteq> [])"
| "truthy (TestScenario i d t) = True"

text \<open>\<open>isinstance(x, list)\<close> and \<open>isinstance(x, dict)\<close>.\<close>

fun is_list :: "pyval \<Rightarrow> bool" where
  "is_list (PList xs) = True"
| "is_list _ = False"

fun is_dict :: "pyval \<Rightarrow> bool" where
  "is_dict (PDict kvs) = True"
| "is_dict _ = False"

text \<open>\<open>d.get(k, v)\<close> and \<open>d[k] = v\<close> (a new key goes last, an old one keeps its place).\<close>

definition dict_get :: "pydict \<Rightarrow> ustr \<Rightarrow> pyval \<Rightarrow> pyval" where
  "dict_get d k v = (case map_of d k of None \<Rightarrow> v | Some x \<Rightarrow> x)"

fun dict_set :: "pydict \<Rightarrow> ustr \<Rightarrow> pyval \<Rightarrow> pydict" where
  "dict_set [] k v = [(k, v)]"
| "dict_set ((k', v') # d) k v = (if k' = k then (k, v) # d else (k', v') # dict_set d k v)"

definition k_functional :: ustr where
  "k_functional = asc ''functional_requirements''"

definition k_non_functional :: ustr where
  "k_non_functional = asc ''non_functional_requirements''"

definition k_scenarios :: ustr where
  "k_scenarios = asc ''test_scenarios''"

definition k_risks :: ustr where
  "k_risks = asc ''risk_areas''"

definition required_keys :: "ustr list" where
  "required_keys = [k_functional, k_non_functional, k_scenarios, k_risks]"

section \<open>The platform\<close>

text \<open>
  What the analyst takes from the Python library and does not define: \<open>str.lower\<close>,
  \<open>str.isdigit\<close> of a character, the class \<open>\d\<close> (both follow the Unicode tables) and
  \<open>json.loads\<close>, whose \<open>None\<close> stands for the exception it raises. Every operation of
  the analyst takes the platform as its first argument, and the general theorems hold
  for every platform.
\<close>

record platform =
  str_lower :: "ustr \<Rightarrow> ustr"
  is_digit :: "nat \<Rightarrow> bool"
  is_decimal :: "nat \<Rightarrow> bool"
  json_loads :: "ustr \<Rightarrow> pyval option"

subsection \<open>A decoder for JSON texts\<close>

text \<open>
  The platform the concrete inputs below run on decodes JSON as CPython's
  \<open>json.loads\<close> does: whitespace is space, tab, newline and carriage return; a string
  holds no raw character below U+0020; a number with a fraction or an exponent is a
  float; a key that comes twice keeps its place and takes the later value; anything
  after the value but whitespace is an error. The literals \<open>NaN\<close> and \<open>Infinity\<close>,
  which CPython accepts, are refused here.
\<close>

definition json_ws :: "nat \<Rightarrow> bool" where
  "json_ws c = (c = 32 \<or> c = 9 \<or> c = 10 \<or> c = 13)"

definition skip_ws :: "ustr \<Rightarrow> ustr" where
  "skip_ws s = dropWhile json_ws s"

definition hex_val :: "nat \<Rightarrow> nat option" where
  "hex_val c =
     (if 48 \<le> c \<and> c \<le> 57 then Some (c - 48)
      else if 97 \<le> c \<and> c \<le> 102 then Some (c - 87)
      else if 65 \<le> c \<and> c \<le> 70 then Some (c - 55)
      else None)"

definition hex4 :: "nat \<Rightarrow> nat \<Rightarrow> nat \<Rightarrow> nat \<Rightarrow> nat option" where
  "hex4 a b c d =
     (case (hex_val a, hex_val b, hex_val c, hex_val d) of
        (Some w, Some x, Some y, Some z) \<Rightarrow> Some (((w * 16 + x) * 16 + y) * 16 + z)
      | _ \<Rightarrow> None)"

definition simple_escape :: "nat \<Rightarrow> nat option" where
  "simple_escape e =
     (if e = 34 \<or> e = 92 \<or> e = 47 then Some e
      else if e = 98 then Some 8
      else if e = 102 then Some 12
      else if e = 110 then Some 10
      else if e = 114 then Some 13
      else if e = 116 then Some 9
      else None)"

text \<open>
  The low half of a surrogate pair written as a second \<open>\uXXXX\<close>: the code point of the
  pair, when \<open>hi\<close> is a high surrogate and the six characters of \<open>s\<close> that follow are the
  escape of a low one.
\<close>

definition low_surrogate :: "nat \<Rightarrow> ustr \<Rightarrow> nat option" where
  "low_surrogate hi s =
     (case s of
        b # u # a' # b' # c' # d' # rest \<Rightarrow>
          if 55296 \<le> hi \<and> hi \<le> 56319 \<and> b = 92 \<and> u = 117
          then (case hex4 a' b' c' d' of
                  None \<Rightarrow> None
                | Some lo \<Rightarrow>
                    if 56320 \<le> lo \<and> lo \<le> 57343
                    then Some (65536 + (hi - 55296) * 1024 + (lo - 56320))
                    else None)
          else None
      | _ \<Rightarrow> None)"

text \<open>The body of a string, after its opening quote: the decoded text and what follows.\<close>

fun scan_string :: "ustr \<Rightarrow> ustr \<Rightarrow> (ustr \<times> ustr) option" where
  "scan_string [] acc = None"
| "scan_string [c] acc = (if c = 34 then Some (rev acc, []) else None)"
| "scan_string (c # e # cs) acc =
     (if c = 34 then Some (rev acc, e # cs)
      else if c = 92 then
        (if e = 117 then
           (case cs of
              a' # b' # c' # d' # rest \<Rightarrow>
                (case hex4 a' b' c' d' of
                   None \<Rightarrow> None
                 | Some u \<Rightarrow>
                     (case low_surrogate u rest of
                        None \<Rightarrow> scan_string rest (u # acc)
                      | Some pair \<Rightarrow> scan_string (drop 6 rest) (pair # acc)))
            | _ \<Rightarrow> None)
         else (case simple_escape e of
                 None \<Rightarrow> None
               | Some x \<Rightarrow> scan_string cs (x # acc)))
      else if c < 32 then None
      else scan_string (e # cs) (c # acc))"

fun nat_of_digits :: "ustr \<Rightarrow> nat \<Rightarrow> nat" where
  "nat_of_digits [] n = n"
| "nat_of_digits (c # cs) n = nat_of_digits cs (10 * n + (c - 48))"

text \<open>
  A number: \<open>-?(0|[1-9][0-9]*)(\.[0-9]+)?([eE][-+]?[0-9]+)?\<close>, an \<open>int\<close> when it has
  neither fraction nor exponent.
\<close>

definition scan_exponent :: "ustr \<Rightarrow> (int \<times> ustr) option" where
  "scan_exponent s =
     (case s of
        [] \<Rightarrow> None
      | e # r \<Rightarrow>
          if e = 101 \<or> e = 69 then
            (let neg = (case r of [] \<Rightarrow> False | x # _ \<Rightarrow> x = 45);
                 r' = (case r of [] \<Rightarrow> [] | x # xs \<Rightarrow> if x = 43 \<or> x = 45 then xs else r);
                 ds = takeWhile ascii_digit r'
             in if ds = [] then None
                else Some ((if neg then - 1 else 1) * int (nat_of_digits ds 0), dropWhile ascii_digit r'))
          else None)"

definition scan_fraction :: "ustr \<Rightarrow> (ustr \<times> ustr) option" where
  "scan_fraction s =
     (case s of
        [] \<Rightarrow> None
      | p # r \<Rightarrow>
          if p = 46 \<and> takeWhile ascii_digit r \<noteq> []
          then Some (takeWhile ascii_digit r, dropWhile ascii_digit r)
          else None)"

definition scan_number :: "ustr \<Rightarrow> (pyval \<times> ustr) option" where
  "scan_number s =
     (let neg = (case s of [] \<Rightarrow> False | x # _ \<Rightarrow> x = 45);
          s1 = (if neg then tl s else s);
          whole = (case s1 of [] \<Rightarrow> []
                   | c # r \<Rightarrow> if c = 48 then [c]
                              else if ascii_digit c then c # takeWhile ascii_digit r else []);
          s2 = drop (length whole) s1;
          sgn = (if neg then - 1 else 1)
      in if whole = [] then None
         else (case scan_fraction s2 of
                 None \<Rightarrow>
                   (case scan_exponent s2 of
                      None \<Rightarrow> Some (PInt (sgn * int (nat_of_digits whole 0)), s2)
                    | Some (e, s3) \<Rightarrow> Some (PFloat (sgn * int (nat_of_digits whole 0)) e, s3))
               | Some (frac, s3) \<Rightarrow>
                   (case scan_exponent s3 of
                      None \<Rightarrow>
                        Some (PFloat (sgn * int (nat_of_digits (whole @ frac) 0)) (- int (length frac)), s3)
                    | Some (e, s4) \<Rightarrow>
                        Some (PFloat (sgn * int (nat_of_digits (whole @ frac) 0)) (e - int (length frac)), s4))))"

text \<open>
  The values. The first argument bounds the calls still allowed; \<open>fuel_of\<close> gives two
  for every character, and a call reads at least one.
\<close>

fun parse_value :: "nat \<Rightarrow> ustr \<Rightarrow> (pyval \<times> ustr) option"
  and parse_array :: "nat \<Rightarrow> ustr \<Rightarrow> pyval list \<Rightarrow> (pyval \<times> ustr) option"
  and parse_object :: "nat \<Rightarrow> ustr \<Rightarrow> pydict \<Rightarrow> (pyval \<times> ustr) option" where
  "parse_value 0 s = None"
| "parse_value (Suc n) s =
     (case s of
        [] \<Rightarrow> None
      | c # cs \<Rightarrow>
          if c = 34 then (case scan_string cs [] of None \<Rightarrow> None | Some (t, r) \<Rightarrow> Some (PStr t, r))
          else if c = 123 then
            (case skip_ws cs of
               [] \<Rightarrow> None
             | d # ds \<Rightarrow> if d = 125 then Some (PDict [], ds) else parse_object n (d # ds) [])
          else if c = 91 then
            (case skip_ws cs of
               [] \<Rightarrow> None
             | d # ds \<Rightarrow> if d = 93 then Some (PList [], ds) else parse_array n (d # ds) [])
          else if str_startswith s (asc ''null'') then Some (PNone, drop 4 s)
          else if str_startswith s (asc ''true'') then Some (PBool True, drop 4 s)
          else if str_startswith s (asc ''false'') then Some (PBool False, drop 5 s)
          else scan_number s)"
| "parse_array 0 s acc = None"
| "parse_array (Suc n) s acc =
     (case parse_value n s of
        None \<Rightarrow> None
      | Some (v, r) \<Rightarrow>
          (case skip_ws r of
             [] \<Rightarrow> None
           | c # cs \<Rightarrow>
               if c = 93 then Some (PList (acc @ [v]), cs)
               else if c = 44 then parse_array n (skip_ws cs) (acc @ [v])
               else None))"
| "parse_object 0 s acc = None"
| "parse_object (Suc n) s acc =
     (case s of
        [] \<Rightarrow> None
      | q # qs \<Rightarrow>
          if q \<noteq> 34 then None
          else (case scan_string qs [] of
                  None \<Rightarrow> None
                | Some (key, r) \<Rightarrow>
                    (case skip_ws r of
                       [] \<Rightarrow> None
                     | c # cs \<Rightarrow>
                         if c \<noteq> 58 then None
                         else (case parse_value n (skip_ws cs) of
                                 None \<Rightarrow> None
                               | Some (v, r2) \<Rightarrow>
                                   (case skip_ws r2 of
                                      [] \<Rightarrow> None
                                    | e # es \<Rightarrow>
                                        if e = 125 then Some (PDict (dict_set acc key v), es)
                                        else if e = 44 then parse_object n (skip_ws es) (dict_set acc key v)
                                        else None)))))"

fun fuel_of :: "ustr \<Rightarrow> nat" where
  "fuel_of [] = Suc (Suc 0)"
| "fuel_of (c # cs) = Suc (Suc (fuel_of cs))"

definition json_decode :: "ustr \<Rightarrow> pyval option" where
  "json_decode s =
     (case parse_value (fuel_of s) (skip_ws s) of
        None \<Rightarrow> None
      | Some (v, r) \<Rightarrow> if skip_ws r = [] then Some v else None)"

text \<open>
  The platform of the concrete inputs: \<open>lower\<close> on the letters A to Z, the digits 0 to
  9, and the decoder above. It agrees with CPython on texts whose cased letters and
  digits are ASCII, which is all the inputs below hold.
\<close>

definition ascii_lower :: "ustr \<Rightarrow> ustr" where
  "ascii_lower s = map (\<lambda>c. if 65 \<le> c \<and> c \<le> 90 then c + 32 else c) s"

definition cpython :: platform where
  "cpython = \<lparr>str_lower = ascii_lower, is_digit = ascii_digit, is_decimal = ascii_digit,
              json_loads = json_decode\<rparr>"

section \<open>StructureValidator and PayloadRepairer\<close>

text \<open>
  \<open>_is_valid_json_format\<close>: the stripped text starts with \<open>{\<close> and ends with \<open>}\<close>, holds
  a double quote, and its braces balance; the count stops at the first moment it is
  negative. Braces inside string literals are counted like any other.
\<close>

fun brace_scan :: "ustr \<Rightarrow> int \<Rightarrow> bool" where
  "brace_scan [] n = (n = 0)"
| "brace_scan (c # cs) n =
     (let n' = (if c = 123 then n + 1 else if c = 125 then n - 1 else n)
      in if n' < 0 then False else brace_scan cs n')"

definition is_valid_json_format :: "ustr \<Rightarrow> bool" where
  "is_valid_json_format json_str =
     (let s = str_strip json_str
      in if \<not> (str_startswith s [123] \<and> str_endswith s [125]) then False
         else if 34 \<notin> set s then False
         else brace_scan s 0)"

text \<open>
  \<open>_fix_json_format\<close>, the conservative pass. Its first step substitutes
  \<open>\1"\2\3"\<close> for every match of \<open>([^\\])"([^"]*?)([^\\])"\<close>; then every newline,
  carriage return and tab of the text, wherever it stands, is replaced by its
  two-character escape; then a text that opens with \<open>{\<close> and does not end with \<open>}\<close> is
  cut after the last \<open>",\<close>, \<open>"],\<close> or \<open>"},\<close> (two characters from where it starts) and
  closed with \<open>}\<close>.
\<close>

definition pat_quotes :: rx where
  "pat_quotes =
     seqs [Grp 1 (Chr (none_of [92])), Chr (is_chr 34), Grp 2 (Lazy (none_of [34])),
           Grp 3 (Chr (none_of [92])), Chr (is_chr 34)]"

definition fix_json_format :: "ustr \<Rightarrow> ustr" where
  "fix_json_format json_str =
     (let s = re_sub pat_quotes (\<lambda>g. g 1 @ [34] @ g 2 @ g 3 @ [34]) json_str;
          s = str_replace 13 [92, 114] (str_replace 10 [92, 110] s);
          s = str_replace 9 [92, 116] s
      in if str_startswith (str_strip s) [123] \<and> \<not> str_endswith (str_strip s) [125]
         then (let last_complete_pair =
                     max (str_rfind s (asc ''\",''))
                       (max (str_rfind s (asc ''\"],'')) (str_rfind s (asc ''\"},'')))
               in if 0 < last_complete_pair
                  then take (nat (last_complete_pair + 2)) s @ [125]
                  else s)
         else s)"

text \<open>
  \<open>_fix_json_aggressive\<close>: five substitutions, then the closing of an object or an array
  that is left open. \<open>json_str[pos]\<close> raises \<open>IndexError\<close> beyond the text, and the
  function then returns the text as the substitutions left it.
\<close>

definition pat_brackets :: rx where
  "pat_brackets = seqs [Grp 1 (Chr (is_chr 93)), Star is_space, Grp 2 (Chr (is_chr 91))]"

definition pat_adjacent_quotes :: rx where
  "pat_adjacent_quotes = seqs [Grp 1 (Chr (is_chr 34)), Star is_space, Grp 2 (Chr (is_chr 34))]"

definition ident_start :: "nat \<Rightarrow> bool" where
  "ident_start c = (ascii_letter c \<or> c = 95)"

definition ident_char :: "nat \<Rightarrow> bool" where
  "ident_char c = (ascii_letter c \<or> ascii_digit c \<or> c = 95)"

definition word_char :: "nat \<Rightarrow> bool" where
  "word_char c = (ascii_letter c \<or> ascii_digit c \<or> is_space c)"

definition pat_bare_key :: rx where
  "pat_bare_key =
     seqs [Grp 1 (Chr (one_of [123, 44])), Star is_space,
           Grp 2 (Seq (Chr ident_start) (Star ident_char)), Star is_space, Chr (is_chr 58)]"

definition pat_bare_value :: rx where
  "pat_bare_value =
     seqs [Chr (is_chr 58), Star is_space, Grp 1 (Seq (Chr ascii_letter) (Lazy word_char)),
           Grp 2 (Chr (one_of [44, 125]))]"

definition pat_bare_element :: rx where
  "pat_bare_element =
     seqs [Chr (is_chr 91), Star is_space, Grp 1 (Seq (Chr ascii_letter) (Lazy word_char)),
           Star is_space, Grp 2 (Chr (one_of [44, 93]))]"

definition close_object :: "ustr \<Rightarrow> ustr option" where
  "close_object s =
     (if str_startswith (str_strip s) [123] \<and> \<not> str_endswith (str_strip s) [125]
      then (let last_valid_pos =
                  max (max (str_rfind s (asc ''\",'')) (str_rfind s (asc ''\"],'')))
                    (max (str_rfind s (asc ''\"},'')) (str_rfind s [34]))
            in if 0 < last_valid_pos
               then (case drop (nat last_valid_pos) s of
                       [] \<Rightarrow> None
                     | c # _ \<Rightarrow>
                         if c = 44 then Some (take (nat last_valid_pos) s @ [125])
                         else if c = 34 then Some (take (nat (last_valid_pos + 1)) s @ [125])
                         else Some (take (nat (last_valid_pos + 2)) s @ [125]))
               else Some s)
      else Some s)"

definition close_array :: "ustr \<Rightarrow> ustr option" where
  "close_array s =
     (if str_startswith (str_strip s) [91] \<and> \<not> str_endswith (str_strip s) [93]
      then (let last_valid_pos =
                  max (max (str_rfind s (asc ''\",'')) (str_rfind s (asc ''},'')))
                    (max (str_rfind s [34]) (str_rfind s [125]))
            in if 0 < last_valid_pos
               then (case drop (nat last_valid_pos) s of
                       [] \<Rightarrow> None
                     | c # _ \<Rightarrow>
                         if c = 44 then Some (take (nat last_valid_pos) s @ [93])
                         else if c = 34 \<or> c = 125 then Some (take (nat (last_valid_pos + 1)) s @ [93])
                         else Some (take (nat (last_valid_pos + 2)) s @ [93]))
               else Some s)
      else Some s)"

definition fix_json_aggressive :: "ustr \<Rightarrow> ustr" where
  "fix_json_aggressive json_str =
     (let s = re_sub pat_brackets (\<lambda>g. g 1 @ [44] @ g 2) json_str;
          s = re_sub pat_adjacent_quotes (\<lambda>g. g 1 @ [44] @ g 2) s;
          s = re_sub pat_bare_key (\<lambda>g. g 1 @ [34] @ g 2 @ [34, 58]) s;
          s = re_sub pat_bare_value (\<lambda>g. [58, 32, 34] @ g 1 @ [34] @ g 2) s;
          s = re_sub pat_bare_element (\<lambda>g. [91, 34] @ g 1 @ [34] @ g 2) s
      in case close_object s of
           None \<Rightarrow> s
         | Some s' \<Rightarrow> (case close_array s' of None \<Rightarrow> s' | Some s'' \<Rightarrow> s''))"

section \<open>RecordBuilder and ResultFinalizer\<close>

text \<open>
  The default scenario of \<open>_build_structured_result\<close>, \<open>_get_default_result\<close> and
  \<open>_extract_test_scenarios\<close>: id \<open>TS001\<close>, the description "a concrete test scenario is
  needed" (in Chinese), no test cases.
\<close>

definition msg_need_scenario :: ustr where
  "msg_need_scenario =
     [38656, 35201, 25552, 20379, 20855, 20307, 30340, 27979, 35797, 22330, 26223]"

definition default_scenario :: pyval where
  "default_scenario = TestScenario (PStr (asc ''TS001'')) (PStr msg_need_scenario) (PList [])"

text \<open>
  The loop of \<open>_build_structured_result\<close> over the entries of \<open>test_scenarios\<close>: an entry
  that is a dict becomes a \<open>TestScenario\<close>, with \<open>TS\<close> and the number of scenarios built
  so far plus one as the id of an entry that has none; any other entry is skipped.
\<close>

definition scenario_of_entry :: "nat \<Rightarrow> pydict \<Rightarrow> pyval" where
  "scenario_of_entry built sc =
     TestScenario (dict_get sc (asc ''id'') (PStr (ts_label (built + 1))))
                  (dict_get sc (asc ''description'') (PStr []))
                  (dict_get sc (asc ''test_cases'') (PList []))"

fun build_scenarios :: "pyval list \<Rightarrow> pyval list \<Rightarrow> pyval list" where
  "build_scenarios [] acc = acc"
| "build_scenarios (PDict sc # rest) acc =
     build_scenarios rest (acc @ [scenario_of_entry (length acc) sc])"
| "build_scenarios (other # rest) acc = build_scenarios rest acc"

definition build_structured_result :: "pydict \<Rightarrow> pydict" where
  "build_structured_result parsed =
     [(k_functional, dict_get parsed k_functional (PList [])),
      (k_non_functional, dict_get parsed k_non_functional (PList [])),
      (k_risks, dict_get parsed k_risks (PList [])),
      (k_scenarios,
        (case map_of parsed k_scenarios of
           Some (PList entries) \<Rightarrow> PList (build_scenarios entries [])
         | _ \<Rightarrow> PList [default_scenario]))]"

text \<open>
  \<open>_validate_analysis_result\<close>: every required key is present and holds a list.
\<close>

fun validate_keys :: "pydict \<Rightarrow> ustr list \<Rightarrow> bool" where
  "validate_keys result [] = True"
| "validate_keys result (k # ks) =
     (case map_of result k of
        None \<Rightarrow> False
      | Some v \<Rightarrow> if is_list v then validate_keys result ks else False)"

definition validate_analysis_result :: "pydict \<Rightarrow> bool" where
  "validate_analysis_result result = validate_keys result required_keys"

text \<open>
  \<open>_fill_missing_requirements\<close>: a required key that is missing or holds a falsy value
  gets a copy of \<open>default_value\<close>, the one-element list of the string "concrete content
  has to be added" (in Chinese), whichever key it is.
\<close>

definition default_value :: pyval where
  "default_value = PList [PStr [38656, 35201, 34917, 20805, 20855, 20307, 20869, 23481]]"

fun fill_keys :: "pydict \<Rightarrow> ustr list \<Rightarrow> pydict" where
  "fill_keys result [] = result"
| "fill_keys result (k # ks) =
     fill_keys
       (case map_of result k of
          None \<Rightarrow> dict_set result k default_value
        | Some v \<Rightarrow> if truthy v then result else dict_set result k default_value)
       ks"

definition fill_missing_requirements :: "pydict \<Rightarrow> pydict" where
  "fill_missing_requirements result = fill_keys result required_keys"

text \<open>
  Lines 243 to 246 of \<open>analyze\<close>: the filling runs only when the validation fails.
\<close>

definition finalize :: "pydict \<Rightarrow> pydict" where
  "finalize result =
     (if validate_analysis_result result then result else fill_missing_requirements result)"

section \<open>SectionExtractor\<close>

text \<open>
  The four extractors that read the headings of a text. Each wraps its body in
  \<open>try\<close>; no operation of the bodies raises on a string, so the \<open>except\<close> branches are
  not part of the model.

  The Chinese words of the headings: "functional requirement", "non-functional
  requirement", "test scenario", "risk area"; U+FF1A is the full-width colon.
\<close>

definition w_functional :: ustr where
  "w_functional = [21151, 33021, 38656, 27714]"

definition w_non_functional :: ustr where
  "w_non_functional = [38750, 21151, 33021, 38656, 27714]"

definition w_scenario :: ustr where
  "w_scenario = [27979, 35797, 22330, 26223]"

definition w_risk_area :: ustr where
  "w_risk_area = [39118, 38505, 39046, 22495]"

text \<open>
  \<open>_extract_functional_reqs\<close>. The titles are "functional requirement",
  \<open>functionalrequirements\<close>, "function list", "function point", \<open>feature\<close>,
  \<open>functional spec\<close>, "function specification", "core function"; the exits are
  "non-functional requirement", \<open>non-functional\<close>, "non-functional (property) requirement",
  "performance requirement", "constraint", "test scenario". A line is compared after
  \<open>lower()\<close>, with the full-width colon made narrow and the spaces removed.
\<close>

definition title_patterns :: "ustr list" where
  "title_patterns =
     [w_functional, asc ''functionalrequirements'', [21151, 33021, 21015, 34920],
      [21151, 33021, 28857], asc ''feature'', asc ''functional spec'',
      [21151, 33021, 35268, 26684], [26680, 24515, 21151, 33021]]"

definition exit_patterns :: "ustr list" where
  "exit_patterns =
     [w_non_functional, asc ''non-functional'', [38750, 21151, 33021, 24615, 38656, 27714],
      [24615, 33021, 38656, 27714], [32422, 26463, 26465, 20214], w_scenario]"

text \<open>
  \<open>numbered_pattern\<close> is \<open>^[(\<dots>]?[\dA-Za-z\<dots>][\]\<dots>\.\<dots>]\<close>: an optional opening bracket
  (ASCII or full-width parenthesis, square or lenticular bracket), a digit, a letter or
  a Chinese numeral from one to ten, and a closing bracket, a full stop or an
  ideographic comma. \<open>bullet_pattern\<close> is \<open>^\<close> and one of seventeen bullet characters
  (U+F0B7, of the private use area, among them).
\<close>

definition numbered_pattern :: "platform \<Rightarrow> rx" where
  "numbered_pattern P =
     seqs [Bol, opt (Chr (one_of [40, 65288, 91, 12304])),
           Chr (\<lambda>c. is_decimal P c \<or> ascii_letter c
                    \<or> c \<in> set [19968, 20108, 19977, 22235, 20116, 20845, 19971, 20843, 20061, 21313]),
           Chr (one_of [93, 65289, 12305, 46, 12289])]"

definition bullet_pattern :: rx where
  "bullet_pattern =
     Seq Bol (Chr (one_of [45, 42, 8226, 8250, 10146, 61623, 9655, 10003, 10004, 10687, 9673,
                           9670, 9671, 9632, 9633, 9679, 9675]))"

text \<open>
  The three classes the cleaning removes: lenticular and white lenticular brackets and
  curly quotes; with them the emoticons U+1F600 to U+1F64F; and with those the section
  sign, the reference mark, the two stars and the female and male signs.
\<close>

definition brackets_quotes :: "nat \<Rightarrow> bool" where
  "brackets_quotes c = (c \<in> set [12304, 12305, 12310, 12311, 8220, 8221, 8216, 8217])"

definition with_emoticons :: "nat \<Rightarrow> bool" where
  "with_emoticons c = (brackets_quotes c \<or> (128512 \<le> c \<and> c \<le> 128591))"

definition with_symbols :: "nat \<Rightarrow> bool" where
  "with_symbols c = (with_emoticons c \<or> c \<in> set [167, 8251, 9733, 9734, 9792, 9794])"

text \<open>\<open>[\<dots>:]$\<close>: a colon, full-width or narrow, at the end.\<close>

definition colon_end :: rx where
  "colon_end = Seq (Chr (one_of [65306, 58])) Eol"

text \<open>
  \<open>business_verbs\<close>: "should", "need", "support", "implement", "provide", "ensure",
  "allow".
\<close>

definition business_verbs :: "ustr list" where
  "business_verbs =
     [[24212], [38656, 35201], [25903, 25345], [23454, 29616], [25552, 20379],
      [30830, 20445], [20801, 35768]]"

text \<open>
  What a line inside the functional section adds to the list (lines 305 to 348): the
  cleaned content when it passes the first filter; else the content cleaned twice more
  when it is longer than three characters and does not end with a colon; else that
  content again, without a leading dash. Each of the three branches appends.
\<close>

definition functional_item :: "platform \<Rightarrow> ustr \<Rightarrow> ustr" where
  "functional_item P line =
     (let content = str_strip line;
          content = (if re_match (numbered_pattern P) content \<noteq> None
                     then str_strip (re_sub (numbered_pattern P) (\<lambda>g. []) content)
                     else content);
          content = (if re_match bullet_pattern content \<noteq> None
                     then str_strip (tl content)
                     else content);
          content = str_strip (re_sub (Chr with_symbols) (\<lambda>g. []) content)
      in if content \<noteq> [] \<and> 3 < length content \<and> length content < 100
             \<and> list_ex (str_contains content) business_verbs
         then content
         else
           (let content = str_strip (re_sub (Chr with_emoticons) (\<lambda>g. []) content);
                content = str_strip (re_sub (Chr brackets_quotes) (\<lambda>g. []) content)
            in if content \<noteq> [] \<and> 3 < length content \<and> re_search colon_end content = None
               then content
               else if str_startswith content [45] then str_strip (tl content)
               else content))"

text \<open>
  The loop over the lines: a line is stripped and loses its characters below U+0020;
  a title line opens the section, an exit line ends the loop.
\<close>

definition clean_line :: "ustr \<Rightarrow> ustr" where
  "clean_line raw = filter (\<lambda>c. 32 \<le> c) (str_strip raw)"

fun functional_loop :: "platform \<Rightarrow> ustr list \<Rightarrow> bool \<Rightarrow> ustr list \<Rightarrow> ustr list" where
  "functional_loop P [] inside reqs = reqs"
| "functional_loop P (raw # rest) inside reqs =
     (let line = clean_line raw;
          cleaned_line = str_replace 32 [] (str_replace 65306 [58] (str_lower P line))
      in if line = [] then functional_loop P rest inside reqs
         else if list_ex (str_contains cleaned_line) title_patterns
         then functional_loop P rest True reqs
         else if list_ex (str_contains cleaned_line) exit_patterns
         then reqs
         else if inside then functional_loop P rest inside (reqs @ [functional_item P line])
         else functional_loop P rest inside reqs)"

text \<open>The default: "concrete functional requirements have to be provided".\<close>

definition msg_need_functional :: ustr where
  "msg_need_functional =
     [38656, 35201, 25552, 20379, 20855, 20307, 30340, 21151, 33021, 38656, 27714]"

definition extract_functional_reqs :: "platform \<Rightarrow> ustr \<Rightarrow> ustr list" where
  "extract_functional_reqs P message =
     (if message = [] then []
      else (let reqs = functional_loop P (str_split 10 message) False []
            in if reqs = [] then [msg_need_functional] else reqs))"

text \<open>
  The other three extractors share the treatment of a line inside their section: a
  leading \<open>-\<close>, \<open>*\<close> or bullet is dropped; else, when one of the first two characters is a
  digit, the text after the first \<open>.\<close>, ideographic comma, full-width or ASCII closing
  parenthesis or \<open>]\<close> is taken (the first of these separators, in this order, that the
  line holds); the content is kept unless it is empty or starts with one of the
  section's prefixes.
\<close>

fun after_separator :: "nat list \<Rightarrow> ustr \<Rightarrow> ustr \<Rightarrow> ustr" where
  "after_separator [] line content = content"
| "after_separator (sep # seps) line content =
     (if sep \<in> set line
      then (case split1_second sep line of
              None \<Rightarrow> after_separator seps line content
            | Some rest \<Rightarrow> rest)
      else after_separator seps line content)"

definition section_item :: "platform \<Rightarrow> ustr list \<Rightarrow> ustr \<Rightarrow> ustr option" where
  "section_item P prefixes line =
     (let content =
            (if str_startswith line [45] \<or> str_startswith line [42] \<or> str_startswith line [8226]
             then str_strip (tl line)
             else if list_ex (is_digit P) (take 2 line)
             then after_separator [46, 12289, 65289, 41, 93] line line
             else line);
          content = str_strip content
      in if content \<noteq> []
            \<and> \<not> list_ex (\<lambda>prefix. str_startswith (str_lower P content) (str_lower P prefix)) prefixes
         then Some (if str_startswith content [45] then str_strip (tl content) else content)
         else None)"

text \<open>
  \<open>_extract_non_functional_reqs\<close>: the headings are \<open>2. \<close>"non-functional requirement",
  that word with a narrow or a full-width colon, and \<open>### 2. \<close> with the word; the
  loop ends at a heading of the test scenarios.
\<close>

definition heading_markers :: "nat \<Rightarrow> ustr \<Rightarrow> ustr list" where
  "heading_markers n w =
     [(48 + n) # asc ''. '' @ w, w @ [58], w @ [65306], asc ''### '' @ (48 + n) # asc ''. '' @ w]"

fun non_functional_loop :: "platform \<Rightarrow> ustr list \<Rightarrow> bool \<Rightarrow> ustr list \<Rightarrow> ustr list" where
  "non_functional_loop P [] inside reqs = reqs"
| "non_functional_loop P (raw # rest) inside reqs =
     (let line = clean_line raw; lowered = str_lower P line
      in if line = [] then non_functional_loop P rest inside reqs
         else if list_ex (str_contains lowered) (heading_markers 2 w_non_functional)
         then non_functional_loop P rest True reqs
         else if list_ex (str_contains lowered) (heading_markers 3 w_scenario)
         then reqs
         else if inside
         then (case section_item P
                      [asc ''2.'', [20108, 12289], w_non_functional, [38656, 27714],
                       [35201, 27714], asc ''**'', asc ''#'']
                      line of
                 None \<Rightarrow> non_functional_loop P rest inside reqs
               | Some content \<Rightarrow> non_functional_loop P rest inside (reqs @ [content]))
         else non_functional_loop P rest inside reqs)"

definition extract_non_functional_reqs :: "platform \<Rightarrow> ustr \<Rightarrow> ustr list" where
  "extract_non_functional_reqs P message =
     (if message = [] then [] else non_functional_loop P (str_split 10 message) False [])"

text \<open>
  \<open>_extract_test_scenarios\<close>: the descriptions are collected between a heading of the
  test scenarios and a heading of the risk areas; the description at position \<open>i\<close>
  (from 0) becomes a \<open>TestScenario\<close> with the id \<open>TS\<close> and \<open>i + 1\<close>; with no description
  there is the default scenario.
\<close>

fun scenario_loop :: "platform \<Rightarrow> ustr list \<Rightarrow> bool \<Rightarrow> ustr list \<Rightarrow> ustr list" where
  "scenario_loop P [] inside descs = descs"
| "scenario_loop P (raw # rest) inside descs =
     (let line = clean_line raw; lowered = str_lower P line
      in if line = [] then scenario_loop P rest inside descs
         else if list_ex (str_contains lowered) (heading_markers 3 w_scenario)
         then scenario_loop P rest True descs
         else if list_ex (str_contains lowered) (heading_markers 4 w_risk_area)
         then descs
         else if inside
         then (case section_item P
                      [asc ''3.'', [19977, 12289], w_scenario, [22330, 26223], asc ''**'',
                       asc ''#'']
                      line of
                 None \<Rightarrow> scenario_loop P rest inside descs
               | Some content \<Rightarrow> scenario_loop P rest inside (descs @ [content]))
         else scenario_loop P rest inside descs)"

definition scenarios_of :: "ustr list \<Rightarrow> pyval list" where
  "scenarios_of descs =
     map (\<lambda>(i, description). TestScenario (PStr (ts_label (i + 1))) (PStr description) (PList []))
       (enumerate 0 descs)"

definition extract_test_scenarios :: "platform \<Rightarrow> ustr \<Rightarrow> pyval list" where
  "extract_test_scenarios P message =
     (if message = [] then []
      else (let test_scenarios = scenarios_of (scenario_loop P (str_split 10 message) False [])
            in if test_scenarios = [] then [default_scenario] else test_scenarios))"

text \<open>
  \<open>_extract_risk_areas\<close>: the section opens at a heading of the risk areas; the loop ends
  at a line that starts with \<open>5.\<close> or is blank once stripped.
\<close>

fun risk_loop :: "platform \<Rightarrow> ustr list \<Rightarrow> bool \<Rightarrow> ustr list \<Rightarrow> ustr list" where
  "risk_loop P [] inside risks = risks"
| "risk_loop P (raw # rest) inside risks =
     (let line = clean_line raw
      in if line = [] then risk_loop P rest inside risks
         else if list_ex (str_contains (str_lower P line)) (heading_markers 4 w_risk_area)
         then risk_loop P rest True risks
         else if str_startswith line (asc ''5.'') \<or> str_strip line = []
         then risks
         else if inside
         then (case section_item P
                      [asc ''4.'', [22235, 12289], w_risk_area, [39118, 38505], asc ''**'',
                       asc ''#'']
                      line of
                 None \<Rightarrow> risk_loop P rest inside risks
               | Some content \<Rightarrow> risk_loop P rest inside (risks @ [content]))
         else risk_loop P rest inside risks)"

definition extract_risk_areas :: "platform \<Rightarrow> ustr \<Rightarrow> ustr list" where
  "extract_risk_areas P message =
     (if message = [] then [] else risk_loop P (str_split 10 message) False [])"

text \<open>Lines 236 to 241 of \<open>analyze\<close>: the record of the four extractors.\<close>

definition section_record :: "platform \<Rightarrow> ustr \<Rightarrow> pydict" where
  "section_record P response =
     [(k_functional, PList (map PStr (extract_functional_reqs P response))),
      (k_non_functional, PList (map PStr (extract_non_functional_reqs P response))),
      (k_scenarios, PList (extract_test_scenarios P response)),
      (k_risks, PList (map PStr (extract_risk_areas P response)))]"

section \<open>LabelExtractor\<close>

text \<open>
  \<open>_extract_fallback_from_text\<close>. A label pattern is the label, a colon (full-width or
  narrow), \<open>\s*\<close> and the group \<open>(.+)\<close>; \<open>re.IGNORECASE\<close> changes nothing, the labels
  being Chinese. For a field, the patterns are tried in order and the first one with a
  match decides: each of its matches is stripped and split at commas, ideographic
  commas and semicolons (narrow or full-width), and the stripped pieces longer than two
  characters are kept.
\<close>

definition label_pattern :: "ustr \<Rightarrow> rx" where
  "label_pattern label =
     seqs [lit label, Chr (one_of [65306, 58]), Star is_space, Grp 1 (Seq (Chr rx_dot) (Star rx_dot))]"

definition list_separator :: "nat \<Rightarrow> bool" where
  "list_separator c = (c \<in> set [44, 65292, 12289, 59, 65307])"

fun first_matches :: "ustr list \<Rightarrow> ustr \<Rightarrow> ustr list" where
  "first_matches [] response = []"
| "first_matches (label # labels) response =
     (case re_findall (label_pattern label) 1 response of
        [] \<Rightarrow> first_matches labels response
      | m # ms \<Rightarrow> m # ms)"

definition pieces :: "ustr \<Rightarrow> ustr list" where
  "pieces m = map str_strip (re_split list_separator (str_strip m))"

definition accepted :: "ustr \<Rightarrow> bool" where
  "accepted req = (req \<noteq> [] \<and> 2 < length req)"

definition label_items :: "ustr list \<Rightarrow> ustr \<Rightarrow> ustr list" where
  "label_items labels response =
     concat (map (\<lambda>m. filter accepted (pieces m)) (first_matches labels response))"

text \<open>
  For the scenarios, the accepted piece at position \<open>i\<close> of its own match (from 0, the
  pieces that are not accepted counted too) becomes a dict with the id \<open>TS\<close> and \<open>i + 1\<close>.
\<close>

definition scenario_dict :: "ustr \<Rightarrow> ustr \<Rightarrow> pyval" where
  "scenario_dict sid description =
     PDict [(asc ''id'', PStr sid), (asc ''description'', PStr description),
            (asc ''test_cases'', PList [])]"

definition label_scenarios :: "ustr list \<Rightarrow> ustr \<Rightarrow> pyval list" where
  "label_scenarios labels response =
     concat (map (\<lambda>m. map (\<lambda>(i, scenario). scenario_dict (ts_label (i + 1)) scenario)
                          (filter (\<lambda>(i, scenario). accepted scenario) (enumerate 0 (pieces m))))
                 (first_matches labels response))"

text \<open>
  The labels: "functional requirement", "functional demand", "main function", "core
  function"; "non-functional requirement", "performance demand", "quality demand",
  "constraint"; "test scenario", "test case", "test situation"; "risk area",
  "potential risk", "risk point", "matters needing attention". The defaults of the
  fields that stay empty follow.
\<close>

definition functional_labels :: "ustr list" where
  "functional_labels =
     [w_functional, [21151, 33021, 35201, 27714], [20027, 35201, 21151, 33021],
      [26680, 24515, 21151, 33021]]"

definition non_functional_labels :: "ustr list" where
  "non_functional_labels =
     [w_non_functional, [24615, 33021, 35201, 27714], [36136, 37327, 35201, 27714],
      [32422, 26463, 26465, 20214]]"

definition scenario_labels :: "ustr list" where
  "scenario_labels = [w_scenario, [27979, 35797, 29992, 20363], [27979, 35797, 24773, 20917]]"

definition risk_labels :: "ustr list" where
  "risk_labels =
     [w_risk_area, [28508, 22312, 39118, 38505], [39118, 38505, 28857],
      [27880, 24847, 20107, 39033]]"

definition text_default_functional :: pyval where
  "text_default_functional =
     PList [PStr [38656, 35201, 26681, 25454, 20855, 20307, 38656, 27714, 25991, 26723,
                  30830, 23450, 21151, 33021, 38656, 27714]]"

definition text_default_non_functional :: pyval where
  "text_default_non_functional =
     PList [PStr [24615, 33021, 35201, 27714], PStr [23433, 20840, 35201, 27714],
            PStr [21487, 29992, 24615, 35201, 27714]]"

definition text_default_scenarios :: pyval where
  "text_default_scenarios =
     PList [scenario_dict (asc ''TS001'')
              [38656, 35201, 26681, 25454, 20855, 20307, 38656, 27714, 30830, 23450,
               27979, 35797, 22330, 26223]]"

definition text_default_risks :: pyval where
  "text_default_risks =
     PList [PStr [25968, 25454, 23433, 20840, 39118, 38505],
            PStr [31995, 32479, 24615, 33021, 39118, 38505],
            PStr [29992, 25143, 20307, 39564, 39118, 38505]]"

definition or_default :: "pyval list \<Rightarrow> pyval \<Rightarrow> pyval" where
  "or_default items dflt = (if items = [] then dflt else PList items)"

definition extract_fallback_from_text :: "ustr \<Rightarrow> pydict" where
  "extract_fallback_from_text response =
     [(k_functional,
         or_default (map PStr (label_items functional_labels response)) text_default_functional),
      (k_non_functional,
         or_default (map PStr (label_items non_functional_labels response)) text_default_non_functional),
      (k_scenarios, or_default (label_scenarios scenario_labels response) text_default_scenarios),
      (k_risks, or_default (map PStr (label_items risk_labels response)) text_default_risks)]"

section \<open>The second attempt on the payload\<close>

text \<open>
  \<open>_extract_json_fallback\<close>. Three patterns look for a flat object (no brace inside)
  that holds the key \<open>"functional_requirements"\<close>, \<open>"test_scenarios"\<close> or
  \<open>"risk_areas"\<close>. For each match, in order, the text is found again in the response, the
  two loops over the braces fix where the candidate starts and ends, and the candidate
  is repaired, validated, decoded and built; the first candidate that decodes to a dict
  is the result. When none does, the result is the LabelExtractor's.
\<close>

definition flat_pattern :: "ustr \<Rightarrow> rx" where
  "flat_pattern key =
     seqs [Chr (is_chr 123), Star (none_of [123, 125]), lit ([34] @ key @ [34]),
           Star (none_of [123, 125]), Chr (is_chr 125)]"

definition brace_step :: "nat \<Rightarrow> int \<Rightarrow> int" where
  "brace_step c n = (if c = 123 then n + 1 else if c = 125 then n - 1 else n)"

text \<open>
  \<open>for i in range(start_pos, -1, -1)\<close>: the characters from \<open>start_pos\<close> down to the
  first, the index of the first at which the count is 1.
\<close>

fun back_scan :: "ustr \<Rightarrow> nat \<Rightarrow> int \<Rightarrow> nat \<Rightarrow> nat" where
  "back_scan [] i n start_brace = start_brace"
| "back_scan (c # cs) i n start_brace =
     (if brace_step c n = 1 then i else back_scan cs (i - 1) (brace_step c n) start_brace)"

text \<open>
  \<open>for i in range(start_pos + len(match), len(response_str))\<close>: the index after the
  first character at which the count is 0.
\<close>

fun forward_scan :: "ustr \<Rightarrow> nat \<Rightarrow> int \<Rightarrow> nat \<Rightarrow> nat" where
  "forward_scan [] i n end_brace = end_brace"
| "forward_scan (c # cs) i n end_brace =
     (if brace_step c n = 0 then i + 1 else forward_scan cs (i + 1) (brace_step c n) end_brace)"

definition full_json :: "ustr \<Rightarrow> ustr \<Rightarrow> nat \<Rightarrow> ustr" where
  "full_json response m start_pos =
     slice response
       (back_scan (rev (take (start_pos + 1) response)) start_pos 0 start_pos)
       (forward_scan (drop (start_pos + length m) response) (start_pos + length m) 0
          (start_pos + length m))"

definition try_candidate :: "platform \<Rightarrow> ustr \<Rightarrow> pydict option" where
  "try_candidate P candidate =
     (let fixed_json = fix_json_format candidate;
          fixed_json = (if \<not> is_valid_json_format fixed_json
                        then fix_json_aggressive fixed_json else fixed_json)
      in if is_valid_json_format fixed_json
         then (case json_loads P fixed_json of
                 Some (PDict parsed) \<Rightarrow> Some (build_structured_result parsed)
               | _ \<Rightarrow> None)
         else None)"

fun try_matches :: "platform \<Rightarrow> ustr \<Rightarrow> ustr list \<Rightarrow> pydict option" where
  "try_matches P response [] = None"
| "try_matches P response (m # ms) =
     (case str_find response m of
        None \<Rightarrow> try_matches P response ms
      | Some start_pos \<Rightarrow>
          (case try_candidate P (full_json response m start_pos) of
             None \<Rightarrow> try_matches P response ms
           | Some result \<Rightarrow> Some result))"

fun try_patterns :: "platform \<Rightarrow> ustr \<Rightarrow> ustr list \<Rightarrow> pydict option" where
  "try_patterns P response [] = None"
| "try_patterns P response (key # keys) =
     (case try_matches P response (re_findall (flat_pattern key) 0 response) of
        None \<Rightarrow> try_patterns P response keys
      | Some result \<Rightarrow> Some result)"

definition extract_json_fallback :: "platform \<Rightarrow> ustr \<Rightarrow> pydict" where
  "extract_json_fallback P response =
     (case try_patterns P response [k_functional, k_scenarios, k_risks] of
        None \<Rightarrow> extract_fallback_from_text response
      | Some result \<Rightarrow> result)"

section \<open>The analysis\<close>

text \<open>
  PayloadLocator, lines 164 to 180 of \<open>analyze\<close>: five searches, each tried when the ones
  before found nothing. A fenced block \<open>```(?:json)?\s*({\s*".*?})\s*```\<close> (the dot
  matches newlines); \<open>({[\s\S]*"functional_requirements"[\s\S]*})\<close>; \<open>({[\s\S]*})\<close>;
  a flat object with two quotes; a flat object. The payload is group 1.
\<close>

definition pat_fenced :: rx where
  "pat_fenced =
     seqs [lit (asc ''```''), opt (lit (asc ''json'')), Star is_space,
           Grp 1 (seqs [Chr (is_chr 123), Star is_space, Chr (is_chr 34), Lazy rx_any,
                        Chr (is_chr 125)]),
           Star is_space, lit (asc ''```'')]"

definition pat_keyed :: rx where
  "pat_keyed =
     Grp 1 (seqs [Chr (is_chr 123), Star rx_any, lit ([34] @ k_functional @ [34]), Star rx_any,
                  Chr (is_chr 125)])"

definition pat_braces :: rx where
  "pat_braces = Grp 1 (seqs [Chr (is_chr 123), Star rx_any, Chr (is_chr 125)])"

definition pat_flat_quoted :: rx where
  "pat_flat_quoted =
     Grp 1 (seqs [Chr (is_chr 123), Star (none_of [123, 125]), Chr (is_chr 34),
                  Star (none_of [123, 125]), Chr (is_chr 34), Star (none_of [123, 125]),
                  Chr (is_chr 125)])"

definition pat_flat :: rx where
  "pat_flat = Grp 1 (seqs [Chr (is_chr 123), Star (none_of [123, 125]), Chr (is_chr 125)])"

fun first_search :: "rx list \<Rightarrow> ustr \<Rightarrow> mres option" where
  "first_search [] s = None"
| "first_search (r # rs) s =
     (case re_search r s of None \<Rightarrow> first_search rs s | Some m \<Rightarrow> Some m)"

definition locate_payload :: "ustr \<Rightarrow> ustr option" where
  "locate_payload response =
     (case first_search [pat_fenced, pat_keyed, pat_braces, pat_flat_quoted, pat_flat] response of
        None \<Rightarrow> None
      | Some m \<Rightarrow> Some (group response m 1))"

text \<open>
  Lines 184 to 231: the payload is stripped, loses every \<open>```json\<close> and \<open>```\<close>, and goes
  through the conservative pass; a text that is then not valid goes through the
  aggressive pass. A text that is valid is decoded, and a dict is built into the
  record. Everything else (not valid after both passes, an exception of
  \<open>json.loads\<close>, a value that is not a dict) goes to \<open>_extract_json_fallback\<close> with the
  whole response.
\<close>

definition pat_fence_marks :: rx where
  "pat_fence_marks = Alt (lit (asc ''```json'')) (lit (asc ''```''))"

definition decode_located :: "platform \<Rightarrow> ustr \<Rightarrow> ustr \<Rightarrow> pydict" where
  "decode_located P response json_str =
     (case json_loads P json_str of
        Some (PDict parsed) \<Rightarrow> build_structured_result parsed
      | _ \<Rightarrow> extract_json_fallback P response)"

definition decode_payload :: "platform \<Rightarrow> ustr \<Rightarrow> ustr \<Rightarrow> pydict" where
  "decode_payload P response payload =
     (let json_str = fix_json_format (re_sub pat_fence_marks (\<lambda>g. []) (str_strip payload))
      in if \<not> is_valid_json_format json_str
         then (let json_str = fix_json_aggressive json_str
               in if \<not> is_valid_json_format json_str
                  then extract_json_fallback P response
                  else decode_located P response json_str)
         else decode_located P response json_str)"

text \<open>
  Lines 182 to 246: without a payload, or with an empty record, the four section
  extractors make the record; then the record is validated and, when the validation
  fails, filled.
\<close>

definition structured_result :: "platform \<Rightarrow> ustr \<Rightarrow> pydict" where
  "structured_result P response =
     (case locate_payload response of
        None \<Rightarrow> section_record P response
      | Some payload \<Rightarrow>
          (let decoded = decode_payload P response payload
           in if decoded = [] then section_record P response else decoded))"

definition process_response :: "platform \<Rightarrow> ustr \<Rightarrow> pydict" where
  "process_response P response = finalize (structured_result P response)"

text \<open>
  The collaborators of \<open>analyze\<close>, which are not among the sources: starting the chat
  (\<open>UserProxyAgent\<close>, \<open>initiate_chat\<close>), which may raise; \<open>self.agent.last_message()\<close>,
  which may raise, give nothing (a falsy response), or give a response, of which the
  model keeps the text the pipeline reads (its \<open>content\<close>, taken to be a string, or \<open>str\<close>
  of it); and \<open>self.agent_io.save_result\<close>, which may raise. An exception is the text
  \<open>str(e)\<close> gives.
\<close>

datatype reply = Fails ustr | Nothing | Message ustr

record collaborators =
  chat_error :: "ustr option"
  last_message :: reply
  save_error :: "pydict \<Rightarrow> ustr option"

text \<open>
  The default record of lines 97 to 108 and of \<open>_get_default_result\<close>, and the dict of
  lines 259 to 262, whose \<open>error\<close> is "the result could not be generated".
\<close>

definition default_result :: pydict where
  "default_result =
     [(k_functional, PList [PStr msg_need_functional]),
      (k_non_functional,
         PList [PStr [38656, 35201, 25552, 20379, 20855, 20307, 30340, 38750, 21151, 33021,
                      38656, 27714]]),
      (k_scenarios, PList [default_scenario]),
      (k_risks,
         PList [PStr [38656, 35201, 35780, 20272, 20855, 20307, 30340, 39118, 38505, 39046,
                      22495]])]"

definition error_result :: "ustr \<Rightarrow> pydict" where
  "error_result e =
     [(asc ''error'', PStr [32467, 26524, 29983, 25104, 22833, 36133]),
      (asc ''details'', PStr e)]"

text \<open>
  \<open>analyze\<close>: what the call does (returns a dict, or raises) and the value of
  \<open>self.last_analysis\<close> after it, from its value before.
\<close>

datatype outcome = Returned pydict | Raised ustr

definition analyze ::
  "platform \<Rightarrow> collaborators \<Rightarrow> pydict option \<Rightarrow> ustr \<Rightarrow> outcome \<times> pydict option" where
  "analyze P C last_analysis doc_content =
     (if doc_content = [] \<or> str_strip doc_content = []
      then (Returned default_result, Some default_result)
      else (case chat_error C of
              Some e \<Rightarrow> (Raised e, last_analysis)
            | None \<Rightarrow>
                (case last_message C of
                   Fails e \<Rightarrow> (Returned (error_result e), last_analysis)
                 | Nothing \<Rightarrow> (Returned default_result, Some default_result)
                 | Message response \<Rightarrow>
                     (let result = process_response P response
                      in case save_error C result of
                           Some e \<Rightarrow> (Returned (error_result e), last_analysis)
                         | None \<Rightarrow> (Returned result, Some result)))))"

section \<open>Notions of the statements\<close>

text \<open>
  The entries of a payload's \<open>test_scenarios\<close> that the builder keeps, in order.
\<close>

fun dict_entries :: "pyval list \<Rightarrow> pydict list" where
  "dict_entries [] = []"
| "dict_entries (PDict sc # rest) = sc # dict_entries rest"
| "dict_entries (other # rest) = dict_entries rest"

text \<open>A record that holds the four fields and no other key.\<close>

definition four_fields :: "pydict \<Rightarrow> bool" where
  "four_fields d = (fst ` set d = set required_keys)"

text \<open>An id of the form \<open>TS\<close> and three ASCII digits.\<close>

definition is_ts_id :: "ustr \<Rightarrow> bool" where
  "is_ts_id s =
     (case s of
        [t, s', a, b, c] \<Rightarrow> t = 84 \<and> s' = 83 \<and> ascii_digit a \<and> ascii_digit b \<and> ascii_digit c
      | _ \<Rightarrow> False)"

text \<open>The id of a scenario, be it a \<open>TestScenario\<close> or a dict.\<close>

fun scenario_id :: "pyval \<Rightarrow> pyval option" where
  "scenario_id (TestScenario i d t) = Some i"
| "scenario_id (PDict sc) = map_of sc (asc ''id'')"
| "scenario_id other = None"

text \<open>
  What lines 186 to 202 make of a located payload: stripped, without its fence marks,
  after the conservative pass and, when the text is then not valid, after the aggressive
  pass. \<open>payload_map\<close> is the map that lines 203 to 226 hand to the builder: there is one
  when the repaired text is valid and \<open>json.loads\<close> decodes it to a dict, and none when the
  text is not valid after both passes, does not decode, or decodes to another value.
  \<open>flat_candidate\<close> is the record built from the first flat candidate of
  \<open>_extract_json_fallback\<close> that decodes to a dict, if there is one.
\<close>

definition repaired :: "ustr \<Rightarrow> ustr" where
  "repaired payload =
     (let json_str = fix_json_format (re_sub pat_fence_marks (\<lambda>g. []) (str_strip payload))
      in if is_valid_json_format json_str then json_str else fix_json_aggressive json_str)"

definition payload_map :: "platform \<Rightarrow> ustr \<Rightarrow> pydict option" where
  "payload_map P payload =
     (if is_valid_json_format (repaired payload)
      then (case json_loads P (repaired payload) of
              Some (PDict parsed) \<Rightarrow> Some parsed
            | _ \<Rightarrow> None)
      else None)"

definition flat_candidate :: "platform \<Rightarrow> ustr \<Rightarrow> pydict option" where
  "flat_candidate P response = try_patterns P response [k_functional, k_scenarios, k_risks]"

text \<open>A run in which no collaborator fails and the model answers \<open>response\<close>.\<close>

definition answering :: "ustr \<Rightarrow> collaborators" where
  "answering response =
     \<lparr>chat_error = None, last_message = Message response, save_error = (\<lambda>result. None)\<rparr>"

section \<open>Documents and responses\<close>

text \<open>
  The concrete inputs of the statements below: a document, and responses of the model.
  \<open>reply_as_prompted\<close> is a payload laid out as the system message of the agent asks
  for it, one field a line; \<open>reply_escaped\<close> is what the conservative pass makes of it;
  \<open>reply_one_line\<close> is the same payload with a space for each newline.
  \<open>reply_risk_label\<close> is "risk point" (in Chinese) and \<open>: data loss, outage\<close>;
  \<open>reply_broken_payload\<close> is the same line followed by \<open>{oops}\<close>, and
  \<open>reply_flat_object\<close> is \<open>{x}\<close> followed by an object that holds \<open>risk_areas\<close>;
  \<open>reply_short_line\<close> is the heading "functional requirement" and the line \<open>- ok\<close>;
  \<open>reply_scenario_section\<close> is the heading "test scenario:" and two bullet lines.
\<close>

definition a_document :: ustr where
  "a_document = asc ''a shop''"

definition reply_empty_field :: ustr where
  "reply_empty_field = asc ''{\"functional_requirements\": []}''"

definition reply_string_field :: ustr where
  "reply_string_field = asc ''{\"functional_requirements\": \"x\", \"test_scenarios\": []}''"

definition reply_repeated_ids :: ustr where
  "reply_repeated_ids = asc ''{\"test_scenarios\": [{\"id\": \"A\"}, {\"id\": \"A\"}]}''"

definition payload_two_lines :: ustr where
  "payload_two_lines = asc ''{'' @ [10] @ asc ''\"a\": []}''"

definition payload_empty_string :: ustr where
  "payload_empty_string = asc ''{\"a\": \"\", \"b\": \"}\"}''"

definition reply_risk_label :: ustr where
  "reply_risk_label = [39118, 38505, 28857] @ asc '': data loss, outage''"

definition reply_broken_payload :: ustr where
  "reply_broken_payload = [39118, 38505, 28857] @ asc '': data loss, outage {oops}''"

definition reply_flat_object :: ustr where
  "reply_flat_object = asc ''{x} {\"risk_areas\": [\"r\"]}''"

definition reply_short_line :: ustr where
  "reply_short_line = w_functional @ [10] @ asc ''- ok''"

definition reply_scenario_section :: ustr where
  "reply_scenario_section = w_scenario @ asc '':'' @ [10] @ asc ''- a'' @ [10] @ asc ''- b''"

definition reply_as_prompted :: ustr where
  "reply_as_prompted =
     asc ''{\"functional_requirements\": [\"a\"],'' @ [10]
     @ asc ''\"non_functional_requirements\": [\"b\"],'' @ [10]
     @ asc ''\"test_scenarios\": [{\"id\": \"TS001\", \"description\": \"d\", \"test_cases\": []}],'' @ [10]
     @ asc ''\"risk_areas\": [\"c\"]}''"

definition reply_one_line :: ustr where
  "reply_one_line =
     asc ''{\"functional_requirements\": [\"a\"], \"non_functional_requirements\": [\"b\"], ''
     @ asc ''\"test_scenarios\": [{\"id\": \"TS001\", \"description\": \"d\", \"test_cases\": []}], ''
     @ asc ''\"risk_areas\": [\"c\"]}''"

definition reply_escaped :: ustr where
  "reply_escaped =
     asc ''{\"functional_requirements\": [\"a\"],'' @ [92, 110]
     @ asc ''\"non_functional_requirements\": [\"b\"],'' @ [92, 110]
     @ asc ''\"test_scenarios\": [{\"id\": \"TS001\", \"description\": \"d\", \"test_cases\": []}],'' @ [92, 110]
     @ asc ''\"risk_areas\": [\"c\"]}''"

section \<open>Facts about the keys and the builder\<close>

lemma keys_distinct:
  "k_functional \<noteq> k_non_functional" "k_functional \<noteq> k_scenarios" "k_functional \<noteq> k_risks"
  "k_non_functional \<noteq> k_functional" "k_non_functional \<noteq> k_scenarios" "k_non_functional \<noteq> k_risks"
  "k_scenarios \<noteq> k_functional" "k_scenarios \<noteq> k_non_functional" "k_scenarios \<noteq> k_risks"
  "k_risks \<noteq> k_functional" "k_risks \<noteq> k_non_functional" "k_risks \<noteq> k_scenarios"
  by (simp_all add: k_functional_def k_non_functional_def k_scenarios_def k_risks_def asc_def)

lemma build_scenarios_acc:
  "build_scenarios es acc =
     acc @ map (\<lambda>(i, sc). scenario_of_entry i sc) (enumerate (length acc) (dict_entries es))"
proof (induction es acc rule: build_scenarios.induct)
  case (1 acc)
  show ?case by simp
next
  case (2 sc rest acc)
  then show ?case by simp
qed simp_all

lemma build_scenarios_nil:
  "build_scenarios es [] = map (\<lambda>(i, sc). scenario_of_entry i sc) (enumerate 0 (dict_entries es))"
  by (simp add: build_scenarios_acc)

section \<open>Facts about the format of the ids\<close>

lemma nat_of_digits_append:
  "nat_of_digits (xs @ ys) a = nat_of_digits ys (nat_of_digits xs a)"
  by (induction xs arbitrary: a) simp_all

lemma nat_of_digits_digits: "nat_of_digits (digits n) 0 = n"
proof (induction n rule: digits.induct)
  case (1 n)
  show ?case
  proof (cases "n < 10")
    case True
    then show ?thesis by (simp add: digits.simps)
  next
    case False
    then have "nat_of_digits (digits n) 0 = nat_of_digits [48 + n mod 10] (nat_of_digits (digits (n div 10)) 0)"
      by (subst digits.simps) (simp add: nat_of_digits_append)
    also have "\<dots> = 10 * (n div 10) + n mod 10"
      using 1 False by simp
    finally show ?thesis by simp
  qed
qed

lemma nat_of_digits_zeros: "nat_of_digits (replicate k 48) 0 = 0"
  by (induction k) simp_all

lemma nat_of_digits_fmt03d: "nat_of_digits (fmt03d n) 0 = n"
  by (simp add: fmt03d_def nat_of_digits_append nat_of_digits_zeros nat_of_digits_digits)

lemma ts_label_inj: "ts_label m = ts_label n \<Longrightarrow> m = n"
proof -
  assume "ts_label m = ts_label n"
  then have "fmt03d m = fmt03d n" by (simp add: ts_label_def)
  then have "nat_of_digits (fmt03d m) 0 = nat_of_digits (fmt03d n) 0" by simp
  then show "m = n" by (simp add: nat_of_digits_fmt03d)
qed

lemma digits_are_digits: "list_all ascii_digit (digits n)"
proof (induction n rule: digits.induct)
  case (1 n)
  show ?case
  proof (cases "n < 10")
    case True
    then show ?thesis by (simp add: digits.simps ascii_digit_def)
  next
    case False
    have "n mod 10 < 10" by simp
    then have "ascii_digit (48 + n mod 10)" unfolding ascii_digit_def by linarith
    with 1 False show ?thesis by (subst digits.simps) simp
  qed
qed

lemma length_digits_small: "n < 1000 \<Longrightarrow> length (digits n) \<le> 3"
proof -
  assume small: "n < 1000"
  show ?thesis
  proof (cases "n < 10")
    case True
    then show ?thesis by (simp add: digits.simps)
  next
    case False
    note ge10 = this
    show ?thesis
    proof (cases "n div 10 < 10")
      case True
      with ge10 show ?thesis by (simp add: digits.simps [of n] digits.simps [of "n div 10"])
    next
      case False
      from small have "n div 10 div 10 < 10" by simp
      with ge10 False show ?thesis
        by (simp add: digits.simps [of n] digits.simps [of "n div 10"] digits.simps [of "n div 10 div 10"])
    qed
  qed
qed

lemma length_digits_pos: "0 < length (digits n)"
  by (subst digits.simps) simp

lemma fmt03d_small: "n < 1000 \<Longrightarrow> length (fmt03d n) = 3 \<and> list_all ascii_digit (fmt03d n)"
  using length_digits_small [of n] length_digits_pos [of n] digits_are_digits [of n]
  by (auto simp: fmt03d_def ascii_digit_def list_all_iff)

lemma is_ts_id_label: "n < 1000 \<Longrightarrow> is_ts_id (ts_label n)"
proof -
  assume "n < 1000"
  then have len: "length (fmt03d n) = 3" and dig: "list_all ascii_digit (fmt03d n)"
    using fmt03d_small by auto
  from len obtain a b c where abc: "fmt03d n = [a, b, c]"
    by (auto simp: length_Suc_conv numeral_3_eq_3)
  with dig show ?thesis
    by (simp add: is_ts_id_def ts_label_def asc_def)
qed

lemma ts_label_1: "ts_label 1 = asc ''TS001''"
  by (simp add: ts_label_def fmt03d_def digits.simps asc_def numeral_2_eq_2)

section \<open>Facts about the records\<close>

lemma required_keys_distinct: "distinct required_keys"
  by (simp add: required_keys_def keys_distinct)

lemma key_not_error:
  "k_functional \<noteq> asc ''error''" "k_non_functional \<noteq> asc ''error''"
  "k_scenarios \<noteq> asc ''error''" "k_risks \<noteq> asc ''error''"
  by (simp_all add: k_functional_def k_non_functional_def k_scenarios_def k_risks_def asc_def)

lemma four_fields_build: "four_fields (build_structured_result parsed)"
  by (auto simp: four_fields_def build_structured_result_def required_keys_def)

lemma four_fields_text: "four_fields (extract_fallback_from_text response)"
  by (auto simp: four_fields_def extract_fallback_from_text_def required_keys_def)

lemma four_fields_sections: "four_fields (section_record P response)"
  by (auto simp: four_fields_def section_record_def required_keys_def)

lemma four_fields_default: "four_fields default_result"
  by (auto simp: four_fields_def default_result_def required_keys_def)

lemma try_candidate_fields: "try_candidate P c = Some r \<Longrightarrow> four_fields r"
  by (auto simp: try_candidate_def Let_def four_fields_build
           split: if_splits option.splits pyval.splits)

lemma try_matches_fields: "try_matches P response ms = Some r \<Longrightarrow> four_fields r"
  by (induction ms) (auto split: option.splits dest: try_candidate_fields)

lemma try_patterns_fields: "try_patterns P response keys = Some r \<Longrightarrow> four_fields r"
  by (induction keys) (auto split: option.splits dest: try_matches_fields)

lemma four_fields_json_fallback: "four_fields (extract_json_fallback P response)"
proof (cases "try_patterns P response [k_functional, k_scenarios, k_risks]")
  case None
  then show ?thesis by (simp add: extract_json_fallback_def four_fields_text)
next
  case (Some r)
  then have "four_fields r" by (rule try_patterns_fields)
  with Some show ?thesis by (simp add: extract_json_fallback_def)
qed

lemma four_fields_decode_located: "four_fields (decode_located P response json_str)"
  by (auto simp: decode_located_def four_fields_build four_fields_json_fallback
           split: option.splits pyval.splits)

lemma four_fields_decode: "four_fields (decode_payload P response payload)"
  by (simp add: decode_payload_def Let_def four_fields_decode_located four_fields_json_fallback)

lemma four_fields_nonempty: "four_fields d \<Longrightarrow> d \<noteq> []"
  by (auto simp: four_fields_def required_keys_def)

lemma four_fields_structured: "four_fields (structured_result P response)"
  by (auto simp: structured_result_def Let_def four_fields_sections four_fields_decode
           split: option.splits)

lemma dict_set_keys: "fst ` set (dict_set d k v) = insert k (fst ` set d)"
  by (induction d k v rule: dict_set.induct) auto

lemma fill_keys_fields:
  "set ks \<subseteq> set required_keys \<Longrightarrow> four_fields d \<Longrightarrow> four_fields (fill_keys d ks)"
proof (induction ks arbitrary: d)
  case Nil
  then show ?case by simp
next
  case (Cons k ks)
  then have k: "k \<in> set required_keys" and ks: "set ks \<subseteq> set required_keys" by auto
  from k Cons.prems(2) have "four_fields (dict_set d k default_value)"
    by (auto simp: four_fields_def dict_set_keys)
  with Cons.prems(2) have "four_fields (case map_of d k of None \<Rightarrow> dict_set d k default_value
      | Some v \<Rightarrow> if truthy v then d else dict_set d k default_value)"
    by (simp split: option.splits)
  from Cons.IH [OF ks this] show ?case by simp
qed

lemma four_fields_finalize: "four_fields d \<Longrightarrow> four_fields (finalize d)"
  by (simp add: finalize_def fill_missing_requirements_def fill_keys_fields)

lemma four_fields_process: "four_fields (process_response P response)"
  by (simp add: process_response_def four_fields_finalize four_fields_structured)

lemma four_fields_has_key: "four_fields d \<Longrightarrow> k \<in> set required_keys \<Longrightarrow> map_of d k \<noteq> None"
  by (metis four_fields_def map_of_eq_None_iff)

lemma four_fields_no_error: "four_fields d \<Longrightarrow> map_of d (asc ''error'') = None"
  using key_not_error
  by (auto simp: four_fields_def map_of_eq_None_iff required_keys_def dest: sym)

lemma error_result_has_error: "map_of (error_result e) (asc ''error'') \<noteq> None"
  by (simp add: error_result_def)

lemma validate_sections: "validate_analysis_result (section_record P response)"
  by (simp add: validate_analysis_result_def required_keys_def section_record_def keys_distinct)

lemma finalize_sections: "finalize (section_record P response) = section_record P response"
  by (simp add: finalize_def validate_sections)


lemma validate_text: "validate_analysis_result (extract_fallback_from_text response)"
  by (simp add: validate_analysis_result_def required_keys_def extract_fallback_from_text_def
        keys_distinct or_default_def text_default_functional_def text_default_non_functional_def
        text_default_scenarios_def text_default_risks_def)

lemma finalize_text: "finalize (extract_fallback_from_text response) = extract_fallback_from_text response"
  by (simp add: finalize_def validate_text)

lemma decode_payload_by_map:
  "decode_payload P response payload =
     (case payload_map P payload of
        Some parsed \<Rightarrow> build_structured_result parsed
      | None \<Rightarrow> extract_json_fallback P response)"
  by (simp add: decode_payload_def decode_located_def payload_map_def repaired_def Let_def
           split: option.splits pyval.splits)

lemma json_fallback_by_candidate:
  "extract_json_fallback P response =
     (case flat_candidate P response of
        Some built \<Rightarrow> built
      | None \<Rightarrow> extract_fallback_from_text response)"
  by (simp add: extract_json_fallback_def flat_candidate_def split: option.splits)

lemma structured_located:
  "locate_payload response = Some payload \<Longrightarrow>
   structured_result P response = decode_payload P response payload"
  using four_fields_nonempty [OF four_fields_decode, of P response payload]
  by (simp add: structured_result_def Let_def)

lemma scenario_ids_of_descs:
  "map scenario_id (scenarios_of descs) = map (\<lambda>i. Some (PStr (ts_label (i + 1)))) [0..<length descs]"
proof -
  let ?label = "\<lambda>i. Some (PStr (ts_label (i + 1)))"
  have "map scenario_id (scenarios_of descs) = map (?label \<circ> fst) (enumerate 0 descs)"
    by (simp add: scenarios_of_def case_prod_unfold comp_def)
  also have "\<dots> = map ?label (map fst (enumerate 0 descs))"
    by (simp only: map_map)
  also have "\<dots> = map ?label [0..<length descs]"
    by (simp only: map_fst_enumerate add_0)
  finally show ?thesis .
qed

lemma length_scenarios_of: "length (scenarios_of descs) = length descs"
  by (simp add: scenarios_of_def)

lemma extracted_scenario_ids:
  "map scenario_id (extract_test_scenarios P message) =
     map (\<lambda>i. Some (PStr (ts_label (i + 1)))) [0..<length (extract_test_scenarios P message)]"
proof (cases "message = []")
  case True
  then show ?thesis by (simp add: extract_test_scenarios_def)
next
  case False
  show ?thesis
  proof (cases "scenarios_of (scenario_loop P (str_split 10 message) False []) = []")
    case True
    with False show ?thesis
      using ts_label_1 by (simp add: extract_test_scenarios_def default_scenario_def)
  next
    case nonempty: False
    with False show ?thesis
      by (simp add: extract_test_scenarios_def Let_def scenario_ids_of_descs length_scenarios_of)
  qed
qed

lemma labels_distinct: "distinct (map (\<lambda>i. Some (PStr (ts_label (i + 1)))) [0..<n])"
  by (auto simp: distinct_map inj_on_def dest: ts_label_inj)

section \<open>Facts about the LabelExtractor\<close>

lemma label_no_match_here:
  "s = [] \<or> hd s \<noteq> a \<Longrightarrow> rx_match [label_pattern (a # l)] i s g = None"
  by (cases s) (auto simp: label_pattern_def)

lemma label_no_match: "a \<notin> set s \<Longrightarrow> scan_all (label_pattern (a # l)) i k s = []"
proof (induction s arbitrary: i k)
  case Nil
  then show ?case by (simp add: label_no_match_here)
next
  case (Cons c cs)
  then have "rx_match [label_pattern (a # l)] i (c # cs) [] = None"
    by (intro label_no_match_here) simp
  with Cons show ?case by simp
qed

lemma first_matches_none:
  "\<forall>label \<in> set labels. label \<noteq> [] \<and> hd label \<notin> set s \<Longrightarrow> first_matches labels s = []"
proof (induction labels)
  case Nil
  then show ?case by simp
next
  case (Cons label labels)
  then obtain a l where "label = a # l" "a \<notin> set s" by (cases label) auto
  with Cons show ?case by (simp add: re_findall_def label_no_match)
qed

lemma ascii_text_defaults:
  assumes "\<forall>c \<in> set s. c < 128"
  shows "extract_fallback_from_text s =
     [(k_functional, text_default_functional), (k_non_functional, text_default_non_functional),
      (k_scenarios, text_default_scenarios), (k_risks, text_default_risks)]"
proof -
  have none: "first_matches labels s = []"
    if "\<forall>label \<in> set labels. label \<noteq> [] \<and> 128 \<le> hd label" for labels
    using that assms by (intro first_matches_none) fastforce
  have "first_matches functional_labels s = []" "first_matches non_functional_labels s = []"
    "first_matches scenario_labels s = []" "first_matches risk_labels s = []"
    by (rule none, simp add: functional_labels_def non_functional_labels_def scenario_labels_def
          risk_labels_def w_functional_def w_non_functional_def w_scenario_def w_risk_area_def)+
  then show ?thesis
    by (simp add: extract_fallback_from_text_def label_items_def label_scenarios_def or_default_def)
qed

section \<open>Runs of the pipeline\<close>

text \<open>
  The definitions of the model, for the evaluation of a run by rewriting.
\<close>

lemma replicate_two: "replicate 2 x = [x, x]"
  by (simp add: numeral_2_eq_2)

lemmas unfold_all =
  asc_def is_space_def str_strip_def str_endswith_def str_find_def str_rfind_def
  str_replace_def slice_def fmt03d_def ts_label_def opt_def group_def re_match_def
  re_search_def re_findall_def re_sub_def rx_any_def rx_dot_def is_chr_def one_of_def
  none_of_def ascii_letter_def ascii_digit_def dict_get_def k_functional_def
  k_non_functional_def k_scenarios_def k_risks_def required_keys_def json_ws_def skip_ws_def
  hex_val_def hex4_def simple_escape_def low_surrogate_def scan_exponent_def scan_fraction_def
  scan_number_def json_decode_def ascii_lower_def cpython_def is_valid_json_format_def
  pat_quotes_def fix_json_format_def pat_brackets_def pat_adjacent_quotes_def ident_start_def
  ident_char_def word_char_def pat_bare_key_def pat_bare_value_def pat_bare_element_def
  close_object_def close_array_def fix_json_aggressive_def msg_need_scenario_def
  default_scenario_def scenario_of_entry_def build_structured_result_def
  validate_analysis_result_def default_value_def fill_missing_requirements_def finalize_def
  w_functional_def w_non_functional_def w_scenario_def w_risk_area_def title_patterns_def
  exit_patterns_def numbered_pattern_def bullet_pattern_def brackets_quotes_def
  with_emoticons_def with_symbols_def colon_end_def business_verbs_def functional_item_def
  clean_line_def msg_need_functional_def extract_functional_reqs_def section_item_def
  heading_markers_def extract_non_functional_reqs_def scenarios_of_def
  extract_test_scenarios_def extract_risk_areas_def section_record_def label_pattern_def
  list_separator_def pieces_def accepted_def label_items_def scenario_dict_def
  label_scenarios_def functional_labels_def non_functional_labels_def scenario_labels_def
  risk_labels_def text_default_functional_def text_default_non_functional_def
  text_default_scenarios_def text_default_risks_def or_default_def
  extract_fallback_from_text_def flat_pattern_def brace_step_def full_json_def
  try_candidate_def extract_json_fallback_def pat_fenced_def pat_keyed_def pat_braces_def
  pat_flat_quoted_def pat_flat_def locate_payload_def pat_fence_marks_def decode_located_def
  decode_payload_def structured_result_def process_response_def default_result_def
  error_result_def analyze_def
  digits.simps Let_def replicate_two

lemma document_not_blank: "a_document \<noteq> [] \<and> str_strip a_document \<noteq> []"
  by (simp add: a_document_def asc_def str_strip_def is_space_def)

lemma analyze_answering:
  "analyze P (answering response) last_analysis a_document =
     (Returned (process_response P response), Some (process_response P response))"
  using document_not_blank by (simp add: analyze_def answering_def Let_def)

lemma run_empty_field:
  "process_response cpython reply_empty_field =
     [(k_functional, PList []), (k_non_functional, PList []), (k_risks, PList []),
      (k_scenarios, PList [default_scenario])]"
  by (simp add: unfold_all reply_empty_field_def)

lemma located_empty_field: "locate_payload reply_empty_field = Some reply_empty_field"
  by (simp add: unfold_all reply_empty_field_def)

lemma run_string_field:
  "process_response cpython reply_string_field =
     [(k_functional, PStr (asc ''x'')), (k_non_functional, default_value),
      (k_risks, default_value), (k_scenarios, default_value)]"
  by (simp add: unfold_all reply_string_field_def)

lemma run_repeated_ids:
  "process_response cpython reply_repeated_ids =
     [(k_functional, PList []), (k_non_functional, PList []), (k_risks, PList []),
      (k_scenarios, PList [TestScenario (PStr (asc ''A'')) (PStr []) (PList []),
                           TestScenario (PStr (asc ''A'')) (PStr []) (PList [])])]"
  by (simp add: unfold_all reply_repeated_ids_def)

lemma located_risk_label: "locate_payload reply_risk_label = None"
  by (simp add: unfold_all reply_risk_label_def)

lemma run_risk_label:
  "process_response cpython reply_risk_label =
     [(k_functional, PList [PStr msg_need_functional]), (k_non_functional, PList []),
      (k_scenarios, PList [default_scenario]), (k_risks, PList [])]"
  by (simp add: unfold_all reply_risk_label_def)

lemma labels_risk_label:
  "map_of (extract_fallback_from_text reply_risk_label) k_risks =
     Some (PList [PStr (asc ''data loss''), PStr (asc ''outage'')])"
  by (simp add: unfold_all reply_risk_label_def)

lemma located_broken_payload: "locate_payload reply_broken_payload = Some (asc ''{oops}'')"
  by (simp add: unfold_all reply_broken_payload_def)

lemma broken_payload_no_map: "payload_map cpython (asc ''{oops}'') = None"
  by (simp add: unfold_all payload_map_def repaired_def)

lemma broken_payload_no_candidate: "flat_candidate cpython reply_broken_payload = None"
  by (simp add: unfold_all flat_candidate_def reply_broken_payload_def)

lemma labels_broken_payload:
  "extract_fallback_from_text reply_broken_payload =
     [(k_functional, text_default_functional), (k_non_functional, text_default_non_functional),
      (k_scenarios, text_default_scenarios),
      (k_risks, PList [PStr (asc ''data loss''), PStr (asc ''outage {oops}'')])]"
  by (simp add: unfold_all reply_broken_payload_def)

lemma located_flat_object: "locate_payload reply_flat_object = Some reply_flat_object"
  by (simp add: unfold_all reply_flat_object_def)

lemma flat_object_no_map: "payload_map cpython reply_flat_object = None"
  by (simp add: unfold_all payload_map_def repaired_def reply_flat_object_def)

lemma flat_object_candidate:
  "flat_candidate cpython reply_flat_object =
     Some (build_structured_result [(k_risks, PList [PStr (asc ''r'')])])"
  by (simp add: unfold_all flat_candidate_def reply_flat_object_def)

lemma empty_field_map: "payload_map cpython reply_empty_field = Some [(k_functional, PList [])]"
  by (simp add: unfold_all payload_map_def repaired_def reply_empty_field_def)

lemma run_short_line:
  "extract_functional_reqs cpython reply_short_line = [asc ''ok'']
   \<and> process_response cpython reply_short_line =
       [(k_functional, PList [PStr (asc ''ok'')]), (k_non_functional, PList []),
        (k_scenarios, PList [default_scenario]), (k_risks, PList [])]"
  by (simp add: unfold_all reply_short_line_def)

lemma run_scenario_section:
  "extract_test_scenarios cpython reply_scenario_section =
     [TestScenario (PStr (asc ''TS001'')) (PStr (asc ''a'')) (PList []),
      TestScenario (PStr (asc ''TS002'')) (PStr (asc ''b'')) (PList [])]"
  by (simp add: unfold_all reply_scenario_section_def)

lemma run_two_lines:
  "json_decode payload_two_lines = Some (PDict [(asc ''a'', PList [])])
   \<and> fix_json_format payload_two_lines = asc ''{'' @ [92, 110] @ asc ''\"a\": []}''
   \<and> json_decode (fix_json_format payload_two_lines) = None"
  by (simp add: unfold_all payload_two_lines_def)

lemma run_empty_string:
  "json_decode payload_empty_string =
     Some (PDict [(asc ''a'', PStr []), (asc ''b'', PStr (asc ''}''))])
   \<and> \<not> is_valid_json_format (fix_json_format payload_empty_string)
   \<and> json_decode (fix_json_aggressive (fix_json_format payload_empty_string)) =
       Some (PDict [(asc ''a'', PStr (asc '','')), (asc ''b'', PStr (asc ''}''))])"
  by (simp add: unfold_all payload_empty_string_def)

lemma run_one_line:
  "process_response cpython reply_one_line =
     [(k_functional, PList [PStr (asc ''a'')]), (k_non_functional, PList [PStr (asc ''b'')]),
      (k_risks, PList [PStr (asc ''c'')]),
      (k_scenarios, PList [TestScenario (PStr (asc ''TS001'')) (PStr (asc ''d'')) (PList [])])]"
  by (simp add: unfold_all reply_one_line_def)

text \<open>The run on \<open>reply_as_prompted\<close>, stage by stage.\<close>

lemma prompted_located: "locate_payload reply_as_prompted = Some reply_as_prompted"
  by (simp add: unfold_all reply_as_prompted_def)

lemma prompted_escaped:
  "fix_json_format (re_sub pat_fence_marks (\<lambda>g. []) (str_strip reply_as_prompted)) = reply_escaped"
  by (simp add: unfold_all reply_as_prompted_def reply_escaped_def)

lemma escaped_valid_format: "is_valid_json_format reply_escaped"
  by (simp add: unfold_all reply_escaped_def)

lemma escaped_not_decoded: "json_decode reply_escaped = None"
  by (simp add: unfold_all reply_escaped_def)

lemma prompted_not_flat:
  "re_findall (flat_pattern k_functional) 0 reply_as_prompted = []"
  "re_findall (flat_pattern k_scenarios) 0 reply_as_prompted = []"
  "re_findall (flat_pattern k_risks) 0 reply_as_prompted = []"
  by (simp_all add: unfold_all reply_as_prompted_def)

lemma prompted_ascii: "\<forall>c \<in> set reply_as_prompted. c < 128"
  by (simp add: reply_as_prompted_def asc_def)

lemma prompted_decoded:
  "json_decode reply_as_prompted =
     Some (PDict [(k_functional, PList [PStr (asc ''a'')]),
                  (k_non_functional, PList [PStr (asc ''b'')]),
                  (k_scenarios,
                     PList [PDict [(asc ''id'', PStr (asc ''TS001'')),
                                   (asc ''description'', PStr (asc ''d'')),
                                   (asc ''test_cases'', PList [])]]),
                  (k_risks, PList [PStr (asc ''c'')])])"
  by (simp add: unfold_all reply_as_prompted_def)

lemma run_as_prompted:
  "process_response cpython reply_as_prompted =
     [(k_functional, text_default_functional), (k_non_functional, text_default_non_functional),
      (k_scenarios, text_default_scenarios), (k_risks, text_default_risks)]"
proof -
  have fallback:
    "extract_json_fallback cpython reply_as_prompted = extract_fallback_from_text reply_as_prompted"
    by (simp add: extract_json_fallback_def prompted_not_flat)
  have "json_loads cpython reply_escaped = None"
    by (simp add: cpython_def escaped_not_decoded)
  then have "decode_payload cpython reply_as_prompted reply_as_prompted =
      extract_fallback_from_text reply_as_prompted"
    by (simp add: decode_payload_def Let_def prompted_escaped escaped_valid_format
          decode_located_def fallback)
  then have "structured_result cpython reply_as_prompted =
      extract_fallback_from_text reply_as_prompted"
    by (simp add: structured_located [OF prompted_located])
  then show ?thesis
    using finalize_text [of reply_as_prompted]
    by (simp add: process_response_def ascii_text_defaults [OF prompted_ascii])
qed

section \<open>Claims\<close>

text \<open>
  C1, at the response \<open>{"functional_requirements": []}\<close>. The payload is located,
  decoded and built; every field of the record is a list, so the validation passes and
  nothing is filled: the returned record holds three empty lists.
\<close>

theorem empty_field_stays_empty:
  "analyze cpython (answering reply_empty_field) None a_document =
     (Returned [(k_functional, PList []), (k_non_functional, PList []), (k_risks, PList []),
                (k_scenarios, PList [default_scenario])],
      Some [(k_functional, PList []), (k_non_functional, PList []), (k_risks, PList []),
            (k_scenarios, PList [default_scenario])])"
  by (simp add: analyze_answering run_empty_field)

text \<open>
  C2, as the code has it. When no collaborator raises, \<open>analyze\<close> returns a record that
  holds the four fields and no key \<open>error\<close>, whatever the document and the response are.
  When \<open>last_message\<close> or \<open>save_result\<close> raises, it returns the dict with the keys
  \<open>error\<close> and \<open>details\<close>; when the chat cannot start, it raises.
\<close>

theorem analyze_outcomes:
  "(chat_error C = None \<and> (\<forall>e. last_message C \<noteq> Fails e) \<and> (\<forall>r. save_error C r = None) \<longrightarrow>
      (\<exists>result. fst (analyze P C last_analysis doc_content) = Returned result
         \<and> four_fields result \<and> map_of result (asc ''error'') = None))
   \<and> (str_strip doc_content \<noteq> [] \<and> chat_error C = Some e \<longrightarrow>
      fst (analyze P C last_analysis doc_content) = Raised e)
   \<and> (str_strip doc_content \<noteq> [] \<and> chat_error C = None \<and> last_message C = Fails e \<longrightarrow>
      fst (analyze P C last_analysis doc_content) = Returned (error_result e))
   \<and> (str_strip doc_content \<noteq> [] \<and> chat_error C = None \<and> last_message C = Message response
        \<and> save_error C (process_response P response) = Some e \<longrightarrow>
      fst (analyze P C last_analysis doc_content) = Returned (error_result e))"
proof (intro conjI impI)
  assume ok: "chat_error C = None \<and> (\<forall>e. last_message C \<noteq> Fails e) \<and> (\<forall>r. save_error C r = None)"
  show "\<exists>result. fst (analyze P C last_analysis doc_content) = Returned result
         \<and> four_fields result \<and> map_of result (asc ''error'') = None"
  proof (cases "last_message C")
    case (Fails e)
    with ok show ?thesis by simp
  next
    case Nothing
    with ok show ?thesis
      by (auto simp: analyze_def four_fields_default four_fields_no_error)
  next
    case (Message response)
    with ok show ?thesis
      by (auto simp: analyze_def Let_def four_fields_default four_fields_process four_fields_no_error)
  qed
next
  assume "str_strip doc_content \<noteq> [] \<and> chat_error C = Some e"
  then show "fst (analyze P C last_analysis doc_content) = Raised e"
    by (auto simp: analyze_def str_strip_def)
next
  assume "str_strip doc_content \<noteq> [] \<and> chat_error C = None \<and> last_message C = Fails e"
  then show "fst (analyze P C last_analysis doc_content) = Returned (error_result e)"
    by (auto simp: analyze_def str_strip_def)
next
  assume "str_strip doc_content \<noteq> [] \<and> chat_error C = None \<and> last_message C = Message response
        \<and> save_error C (process_response P response) = Some e"
  then show "fst (analyze P C last_analysis doc_content) = Returned (error_result e)"
    by (auto simp: analyze_def Let_def str_strip_def)
qed

text \<open>
  C2, the theorem at a run in which nothing fails, at one in which the chat cannot start,
  at one in which \<open>last_message\<close> raises and at one in which \<open>save_result\<close> raises.
\<close>

theorem analyze_outcomes_witness:
  "(\<exists>result. fst (analyze cpython (answering reply_empty_field) None a_document) = Returned result
       \<and> four_fields result \<and> map_of result (asc ''error'') = None)
   \<and> fst (analyze cpython
            \<lparr>chat_error = Some (asc ''no route''), last_message = Nothing,
             save_error = (\<lambda>result. None)\<rparr> None a_document)
       = Raised (asc ''no route'')
   \<and> fst (analyze cpython
            \<lparr>chat_error = None, last_message = Fails (asc ''no reply''),
             save_error = (\<lambda>result. None)\<rparr> None a_document)
       = Returned (error_result (asc ''no reply''))
   \<and> fst (analyze cpython
            \<lparr>chat_error = None, last_message = Message reply_empty_field,
             save_error = (\<lambda>result. Some (asc ''disk full''))\<rparr> None a_document)
       = Returned (error_result (asc ''disk full''))"
proof -
  let ?raising = "\<lparr>chat_error = Some (asc ''no route''), last_message = Nothing,
                    save_error = (\<lambda>result. None)\<rparr>"
  let ?silent = "\<lparr>chat_error = None, last_message = Fails (asc ''no reply''),
                   save_error = (\<lambda>result. None)\<rparr>"
  let ?unsaved = "\<lparr>chat_error = None, last_message = Message reply_empty_field,
                    save_error = (\<lambda>result. Some (asc ''disk full''))\<rparr>"
  have "\<exists>result. fst (analyze cpython (answering reply_empty_field) None a_document) = Returned result
       \<and> four_fields result \<and> map_of result (asc ''error'') = None"
    using analyze_outcomes [where C = "answering reply_empty_field" and P = cpython
        and last_analysis = None and doc_content = a_document]
    by (simp add: answering_def)
  moreover have "fst (analyze cpython ?raising None a_document) = Raised (asc ''no route'')"
    using analyze_outcomes [where C = ?raising and P = cpython and last_analysis = None
        and doc_content = a_document and e = "asc ''no route''"]
      document_not_blank
    by simp
  moreover have "fst (analyze cpython ?silent None a_document) = Returned (error_result (asc ''no reply''))"
    using analyze_outcomes [where C = ?silent and P = cpython and last_analysis = None
        and doc_content = a_document and e = "asc ''no reply''"]
      document_not_blank
    by simp
  moreover have "fst (analyze cpython ?unsaved None a_document) = Returned (error_result (asc ''disk full''))"
    using analyze_outcomes [where C = ?unsaved and P = cpython and last_analysis = None
        and doc_content = a_document and e = "asc ''disk full''" and response = reply_empty_field]
      document_not_blank
    by simp
  ultimately show ?thesis by blast
qed

text \<open>
  C2 as the spec states it fails: with a document and a response at hand, \<open>analyze\<close>
  returns the dict with the keys \<open>error\<close> and \<open>details\<close> when \<open>save_result\<close> raises, and
  raises when the chat cannot start.
\<close>

theorem analyze_error_dict_and_raise:
  "fst (analyze cpython
          \<lparr>chat_error = None, last_message = Message reply_empty_field,
           save_error = (\<lambda>result. Some (asc ''disk full''))\<rparr> None a_document)
     = Returned [(asc ''error'', PStr [32467, 26524, 29983, 25104, 22833, 36133]),
                 (asc ''details'', PStr (asc ''disk full''))]
   \<and> fst (analyze cpython
          \<lparr>chat_error = Some (asc ''no route''), last_message = Nothing,
           save_error = (\<lambda>result. None)\<rparr> None a_document)
     = Raised (asc ''no route'')"
  using document_not_blank by (simp add: analyze_def Let_def error_result_def)

text \<open>
  C3, at the response \<open>{"functional_requirements": "x", "test_scenarios": []}\<close>. The
  string fails the validation, so the filling runs; it puts \<open>default_value\<close>, a list of
  one string, in place of the empty \<open>test_scenarios\<close> as in place of any other field,
  and leaves the string \<open>x\<close> where it is.
\<close>

theorem filled_scenarios_hold_a_string:
  "fst (analyze cpython (answering reply_string_field) None a_document) =
     Returned [(k_functional, PStr (asc ''x'')),
               (k_non_functional, PList [PStr [38656, 35201, 34917, 20805, 20855, 20307, 20869, 23481]]),
               (k_risks, PList [PStr [38656, 35201, 34917, 20805, 20855, 20307, 20869, 23481]]),
               (k_scenarios, PList [PStr [38656, 35201, 34917, 20805, 20855, 20307, 20869, 23481]])]"
  by (simp add: analyze_answering run_string_field default_value_def)

text \<open>
  C4, as the code has it. RecordBuilder takes the id of an entry as the payload gives
  it, and nothing checks it. The scenarios SectionExtractor makes get \<open>TS001\<close>,
  \<open>TS002\<close>, \<dots> in the order of extraction: the scenario at position \<open>i\<close> (from 0) has the
  id \<open>TS\<close> and \<open>i + 1\<close>; these ids are pairwise distinct, and with fewer than 1000
  scenarios each is \<open>TS\<close> and three digits.
\<close>

theorem section_scenario_ids:
  "scenario_id (scenario_of_entry built sc) = Some (dict_get sc (asc ''id'') (PStr (ts_label (built + 1))))
   \<and> map scenario_id (extract_test_scenarios P message) =
       map (\<lambda>i. Some (PStr (ts_label (i + 1)))) [0..<length (extract_test_scenarios P message)]
   \<and> distinct (map scenario_id (extract_test_scenarios P message))
   \<and> (length (extract_test_scenarios P message) < 1000 \<longrightarrow>
        list_all (\<lambda>s. case scenario_id s of Some (PStr t) \<Rightarrow> is_ts_id t | _ \<Rightarrow> False)
          (extract_test_scenarios P message))"
proof (intro conjI impI)
  show "scenario_id (scenario_of_entry built sc) = Some (dict_get sc (asc ''id'') (PStr (ts_label (built + 1))))"
    by (simp add: scenario_of_entry_def)
next
  show ids: "map scenario_id (extract_test_scenarios P message) =
       map (\<lambda>i. Some (PStr (ts_label (i + 1)))) [0..<length (extract_test_scenarios P message)]"
    by (rule extracted_scenario_ids)
  show "distinct (map scenario_id (extract_test_scenarios P message))"
    unfolding ids by (rule labels_distinct)
next
  let ?xs = "extract_test_scenarios P message"
  assume small: "length ?xs < 1000"
  have "list_all (\<lambda>v. case v of Some (PStr t) \<Rightarrow> is_ts_id t | _ \<Rightarrow> False) (map scenario_id ?xs)"
    unfolding extracted_scenario_ids [of P message]
    using small by (auto simp: list_all_iff intro: is_ts_id_label)
  then show "list_all (\<lambda>s. case scenario_id s of Some (PStr t) \<Rightarrow> is_ts_id t | _ \<Rightarrow> False) ?xs"
    by (simp add: list_all_iff)
qed

text \<open>
  C4, the theorem at an entry without an id after two built scenarios, and at the text
  of a scenario section with two bullet lines.
\<close>

theorem section_scenario_ids_witness:
  "scenario_id (scenario_of_entry 2 []) = Some (PStr (asc ''TS003''))
   \<and> map scenario_id (extract_test_scenarios cpython reply_scenario_section) =
       [Some (PStr (asc ''TS001'')), Some (PStr (asc ''TS002''))]
   \<and> distinct (map scenario_id (extract_test_scenarios cpython reply_scenario_section))
   \<and> list_all (\<lambda>s. case scenario_id s of Some (PStr t) \<Rightarrow> is_ts_id t | _ \<Rightarrow> False)
        (extract_test_scenarios cpython reply_scenario_section)"
proof -
  have labels: "ts_label (Suc 0) = asc ''TS001''" "ts_label (Suc (Suc 0)) = asc ''TS002''"
    "ts_label 3 = asc ''TS003''"
    by (simp_all add: ts_label_def fmt03d_def digits.simps asc_def numeral_2_eq_2)
  have two: "length (extract_test_scenarios cpython reply_scenario_section) = 2"
    by (simp add: run_scenario_section)
  have upt: "[0..<2] = [0, Suc 0]"
    by (simp add: numeral_2_eq_2)
  have differ: "asc ''TS001'' \<noteq> asc ''TS002''"
    by (simp add: asc_def)
  show ?thesis
    using section_scenario_ids [where built = 2 and sc = "[]" and P = cpython
        and message = reply_scenario_section] two labels differ
    by (simp add: dict_get_def upt)
qed

text \<open>
  C4 as the spec states it fails: at the response
  \<open>{"test_scenarios": [{"id": "A"}, {"id": "A"}]}\<close> the returned record holds two
  scenarios with the id \<open>A\<close>, which is not \<open>TS\<close> and three digits and is not unique.
\<close>

theorem payload_ids_repeat:
  "fst (analyze cpython (answering reply_repeated_ids) None a_document) =
     Returned [(k_functional, PList []), (k_non_functional, PList []), (k_risks, PList []),
               (k_scenarios, PList [TestScenario (PStr (asc ''A'')) (PStr []) (PList []),
                                    TestScenario (PStr (asc ''A'')) (PStr []) (PList [])])]
   \<and> map scenario_id [TestScenario (PStr (asc ''A'')) (PStr []) (PList []),
                       TestScenario (PStr (asc ''A'')) (PStr []) (PList [])]
       = [Some (PStr (asc ''A'')), Some (PStr (asc ''A''))]
   \<and> \<not> is_ts_id (asc ''A'')
   \<and> \<not> distinct [Some (PStr (asc ''A'')), Some (PStr (asc ''A''))]"
  by (simp add: analyze_answering run_repeated_ids is_ts_id_def asc_def)

text \<open>
  C5, at two valid payloads. The first is \<open>{\<close>, a newline and \<open>"a": []}\<close>: the
  conservative pass writes the newline between the tokens as a backslash and \<open>n\<close>, and
  the result does not decode. The second is \<open>{"a": "", "b": "}"}\<close>: its braces do not
  balance for the validator, so the aggressive pass runs, puts a comma between the two
  quotes of the empty string, and the result decodes to another value.
\<close>

theorem repair_breaks_valid_payloads:
  "json_decode payload_two_lines = Some (PDict [(asc ''a'', PList [])])
   \<and> fix_json_format payload_two_lines = asc ''{'' @ [92, 110] @ asc ''\"a\": []}''
   \<and> json_decode (fix_json_format payload_two_lines) = None
   \<and> json_decode payload_empty_string =
       Some (PDict [(asc ''a'', PStr []), (asc ''b'', PStr (asc ''}''))])
   \<and> \<not> is_valid_json_format (fix_json_format payload_empty_string)
   \<and> json_decode (fix_json_aggressive (fix_json_format payload_empty_string)) =
       Some (PDict [(asc ''a'', PStr (asc '','')), (asc ''b'', PStr (asc ''}''))])"
  using run_two_lines run_empty_string by (elim conjE, intro conjI) assumption+

text \<open>
  C6, at \<open>reply_as_prompted\<close>: a well-formed payload with the four fields, one a line.
  It decodes as it stands; in the pipeline the conservative pass escapes its newlines,
  the text no longer decodes, no flat candidate is found, and the returned record is the
  LabelExtractor's defaults, for every field. With a space for each newline
  (\<open>reply_one_line\<close>) the same payload is built into the record, field by field.
\<close>

theorem prompted_reply_is_lost:
  "json_decode reply_as_prompted =
     Some (PDict [(k_functional, PList [PStr (asc ''a'')]),
                  (k_non_functional, PList [PStr (asc ''b'')]),
                  (k_scenarios,
                     PList [PDict [(asc ''id'', PStr (asc ''TS001'')),
                                   (asc ''description'', PStr (asc ''d'')),
                                   (asc ''test_cases'', PList [])]]),
                  (k_risks, PList [PStr (asc ''c'')])])
   \<and> fst (analyze cpython (answering reply_as_prompted) None a_document) =
       Returned [(k_functional, text_default_functional),
                 (k_non_functional, text_default_non_functional),
                 (k_scenarios, text_default_scenarios), (k_risks, text_default_risks)]
   \<and> fst (analyze cpython (answering reply_one_line) None a_document) =
       Returned [(k_functional, PList [PStr (asc ''a'')]),
                 (k_non_functional, PList [PStr (asc ''b'')]),
                 (k_risks, PList [PStr (asc ''c'')]),
                 (k_scenarios,
                    PList [TestScenario (PStr (asc ''TS001'')) (PStr (asc ''d'')) (PList [])])]"
  by (simp add: prompted_decoded analyze_answering run_as_prompted run_one_line)

text \<open>
  C7, as the code has it. When no payload is located, the record is the one of the four
  section extractors, as they leave it: LabelExtractor takes no part, and a field
  SectionExtractor leaves empty is empty in the record. When a payload is located and,
  after the repair passes, is valid and decodes to a map, the record is built from that
  map and finalized. When it is not valid after both passes, does not decode, or decodes
  to another value, the record is the finalized one of the first flat candidate that
  decodes to a map; and exactly when there is no such candidate either, the record is
  the LabelExtractor's reading of the whole response, all four fields of it.
\<close>

theorem label_extractor_after_payload_only:
  "(locate_payload response = None \<longrightarrow>
      process_response P response = section_record P response)
   \<and> (locate_payload response = Some payload \<longrightarrow>
        process_response P response =
          (case payload_map P payload of
             Some parsed \<Rightarrow> finalize (build_structured_result parsed)
           | None \<Rightarrow>
               (case flat_candidate P response of
                  Some built \<Rightarrow> finalize built
                | None \<Rightarrow> extract_fallback_from_text response)))"
proof (intro conjI impI)
  assume "locate_payload response = None"
  then show "process_response P response = section_record P response"
    by (simp add: process_response_def structured_result_def finalize_sections)
next
  assume located: "locate_payload response = Some payload"
  have "process_response P response = finalize (decode_payload P response payload)"
    using located by (simp add: process_response_def structured_located)
  then show "process_response P response =
      (case payload_map P payload of
         Some parsed \<Rightarrow> finalize (build_structured_result parsed)
       | None \<Rightarrow>
           (case flat_candidate P response of
              Some built \<Rightarrow> finalize built
            | None \<Rightarrow> extract_fallback_from_text response))"
    by (simp add: decode_payload_by_map json_fallback_by_candidate finalize_text
             split: option.splits)
qed

text \<open>
  C7, the theorem on its four paths: at \<open>reply_risk_label\<close> no payload is located; at
  \<open>reply_empty_field\<close> the located payload decodes to a map; at \<open>reply_flat_object\<close> the
  located payload \<open>{x} {"risk_areas": ["r"]}\<close> does not decode and the flat candidate
  \<open>{"risk_areas": ["r"]}\<close> does; at \<open>reply_broken_payload\<close> the located payload \<open>{oops}\<close>
  is not valid after both passes, there is no flat candidate, and the LabelExtractor
  reads the two risks after the label.
\<close>

theorem label_extractor_after_payload_only_witness:
  "locate_payload reply_risk_label = None
   \<and> process_response cpython reply_risk_label = section_record cpython reply_risk_label
   \<and> locate_payload reply_empty_field = Some reply_empty_field
   \<and> payload_map cpython reply_empty_field = Some [(k_functional, PList [])]
   \<and> process_response cpython reply_empty_field =
       finalize (build_structured_result [(k_functional, PList [])])
   \<and> locate_payload reply_flat_object = Some reply_flat_object
   \<and> payload_map cpython reply_flat_object = None
   \<and> flat_candidate cpython reply_flat_object =
       Some (build_structured_result [(k_risks, PList [PStr (asc ''r'')])])
   \<and> process_response cpython reply_flat_object =
       finalize (build_structured_result [(k_risks, PList [PStr (asc ''r'')])])
   \<and> locate_payload reply_broken_payload = Some (asc ''{oops}'')
   \<and> payload_map cpython (asc ''{oops}'') = None
   \<and> flat_candidate cpython reply_broken_payload = None
   \<and> process_response cpython reply_broken_payload =
       [(k_functional, text_default_functional), (k_non_functional, text_default_non_functional),
        (k_scenarios, text_default_scenarios),
        (k_risks, PList [PStr (asc ''data loss''), PStr (asc ''outage {oops}'')])]"
  using
    label_extractor_after_payload_only [where response = reply_risk_label and P = cpython]
    label_extractor_after_payload_only
      [where response = reply_empty_field and P = cpython and payload = reply_empty_field]
    label_extractor_after_payload_only
      [where response = reply_flat_object and P = cpython and payload = reply_flat_object]
    label_extractor_after_payload_only
      [where response = reply_broken_payload and P = cpython and payload = "asc ''{oops}''"]
    located_risk_label located_empty_field empty_field_map
    located_flat_object flat_object_no_map flat_object_candidate
    located_broken_payload broken_payload_no_map broken_payload_no_candidate
    labels_broken_payload
  by simp

text \<open>
  C7 as the spec states it fails: the response "risk point: data loss, outage" holds no
  payload; SectionExtractor leaves \<open>risk_areas\<close> empty, LabelExtractor would read two
  risks from the line, and the returned record has \<open>risk_areas\<close> empty.
\<close>

theorem risk_label_is_not_read:
  "locate_payload reply_risk_label = None
   \<and> extract_risk_areas cpython reply_risk_label = []
   \<and> map_of (extract_fallback_from_text reply_risk_label) k_risks =
       Some (PList [PStr (asc ''data loss''), PStr (asc ''outage'')])
   \<and> fst (analyze cpython (answering reply_risk_label) None a_document) =
       Returned [(k_functional, PList [PStr msg_need_functional]), (k_non_functional, PList []),
                 (k_scenarios, PList [default_scenario]), (k_risks, PList [])]"
proof -
  have "process_response cpython reply_risk_label = section_record cpython reply_risk_label"
    by (simp add: process_response_def structured_result_def located_risk_label finalize_sections)
  then have "extract_risk_areas cpython reply_risk_label = []"
    by (simp add: run_risk_label section_record_def)
  then show ?thesis
    by (simp add: located_risk_label labels_risk_label analyze_answering run_risk_label)
qed

text \<open>
  C8, at the response made of the heading "functional requirement" and the line
  \<open>- ok\<close>. The cleaned line \<open>ok\<close> has two characters and no marker word; it fails the
  first filter and the second, and the third branch appends it.
\<close>

theorem short_line_is_kept:
  "extract_functional_reqs cpython reply_short_line = [asc ''ok'']
   \<and> length (asc ''ok'') = 2
   \<and> \<not> list_ex (str_contains (asc ''ok'')) business_verbs
   \<and> fst (analyze cpython (answering reply_short_line) None a_document) =
       Returned [(k_functional, PList [PStr (asc ''ok'')]), (k_non_functional, PList []),
                 (k_scenarios, PList [default_scenario]), (k_risks, PList [])]"
  using run_short_line by (simp add: analyze_answering business_verbs_def asc_def)

text \<open>
  C9, as the code has it. RecordBuilder copies the value of \<open>functional_requirements\<close>,
  \<open>non_functional_requirements\<close> and \<open>risk_areas\<close> as it is whenever the key is
  present, list-shaped or not, and puts an empty list only where the key is absent. For
  \<open>test_scenarios\<close> a list-shaped value is converted entry by entry (each map-shaped entry
  becomes a \<open>TestScenario\<close>, in order, the others are skipped); a value that is absent or
  not a list is replaced by the one default scenario \<open>TS001\<close>, not by an empty sequence.
\<close>

theorem build_structured_result_fields:
  "(k \<in> {k_functional, k_non_functional, k_risks} \<longrightarrow>
      map_of (build_structured_result d) k =
        Some (case map_of d k of None \<Rightarrow> PList [] | Some v \<Rightarrow> v))
   \<and> (map_of d k_scenarios = Some (PList es) \<longrightarrow>
      map_of (build_structured_result d) k_scenarios =
        Some (PList (map (\<lambda>(i, sc). scenario_of_entry i sc) (enumerate 0 (dict_entries es)))))
   \<and> ((\<forall>xs. map_of d k_scenarios \<noteq> Some (PList xs)) \<longrightarrow>
      map_of (build_structured_result d) k_scenarios = Some (PList [default_scenario]))"
proof (intro conjI impI)
  assume "k \<in> {k_functional, k_non_functional, k_risks}"
  then show "map_of (build_structured_result d) k =
      Some (case map_of d k of None \<Rightarrow> PList [] | Some v \<Rightarrow> v)"
    by (auto simp: build_structured_result_def dict_get_def keys_distinct)
next
  assume "map_of d k_scenarios = Some (PList es)"
  then show "map_of (build_structured_result d) k_scenarios =
      Some (PList (map (\<lambda>(i, sc). scenario_of_entry i sc) (enumerate 0 (dict_entries es))))"
    by (simp add: build_structured_result_def keys_distinct build_scenarios_nil)
next
  assume no_list: "\<forall>xs. map_of d k_scenarios \<noteq> Some (PList xs)"
  show "map_of (build_structured_result d) k_scenarios = Some (PList [default_scenario])"
  proof (cases "map_of d k_scenarios")
    case None
    then show ?thesis by (simp add: build_structured_result_def keys_distinct)
  next
    case (Some v)
    with no_list show ?thesis
      by (cases v) (simp_all add: build_structured_result_def keys_distinct)
  qed
qed

theorem build_structured_result_fields_witness:
  "map_of (build_structured_result [(k_risks, PInt 7), (k_scenarios, PList [PInt 1, PDict []])]) k_risks
     = Some (PInt 7)
   \<and> map_of (build_structured_result [(k_risks, PInt 7), (k_scenarios, PList [PInt 1, PDict []])]) k_scenarios
     = Some (PList [TestScenario (PStr (asc ''TS001'')) (PStr []) (PList [])])
   \<and> map_of (build_structured_result [(k_scenarios, PInt 3)]) k_scenarios = Some (PList [default_scenario])"
proof -
  let ?d = "[(k_risks, PInt 7), (k_scenarios, PList [PInt 1, PDict []])]"
  have fields: "map_of ?d k_risks = Some (PInt 7)" "map_of ?d k_scenarios = Some (PList [PInt 1, PDict []])"
    by (simp_all add: keys_distinct)
  have label: "ts_label 1 = asc ''TS001''"
    by (simp add: ts_label_def fmt03d_def digits.simps asc_def numeral_2_eq_2)
  have "map_of (build_structured_result ?d) k_risks = Some (PInt 7)"
    using build_structured_result_fields [of k_risks ?d "[PInt 1, PDict []]"] fields by simp
  moreover have "map_of (build_structured_result ?d) k_scenarios
      = Some (PList [TestScenario (PStr (asc ''TS001'')) (PStr []) (PList [])])"
    using build_structured_result_fields [of k_risks ?d "[PInt 1, PDict []]"] fields label
    by (simp add: scenario_of_entry_def dict_get_def)
  moreover have "map_of (build_structured_result [(k_scenarios, PInt 3)]) k_scenarios
      = Some (PList [default_scenario])"
    using build_structured_result_fields [of k_risks "[(k_scenarios, PInt 3)]" "[]"] by simp
  ultimately show ?thesis by blast
qed

text \<open>
  C9 as the spec states it fails: a value that is present but is a string is copied as
  it is, and a \<open>test_scenarios\<close> that is present but is a string is replaced by the
  default scenario, not by an empty sequence.
\<close>

theorem build_structured_result_counterexample:
  "map_of (build_structured_result [(k_functional, PStr (asc ''abc'')), (k_scenarios, PStr (asc ''abc''))])
       k_functional = Some (PStr (asc ''abc''))
   \<and> \<not> is_list (PStr (asc ''abc''))
   \<and> map_of (build_structured_result [(k_functional, PStr (asc ''abc'')), (k_scenarios, PStr (asc ''abc''))])
       k_scenarios = Some (PList [default_scenario])
   \<and> PList [default_scenario] \<noteq> PList []"
  by (simp add: build_structured_result_def dict_get_def keys_distinct)

text \<open>
  C10. After \<open>analyze\<close>, \<open>last_analysis\<close> is the returned record whenever a record is
  returned (the default of a blank document, the default of a missing response, the
  record of the pipeline), and is what it was before whenever the dict with the key
  \<open>error\<close> is returned or the call raises.
\<close>

theorem last_analysis_is_returned_record:
  "snd (analyze P C last_analysis doc_content) =
     (case fst (analyze P C last_analysis doc_content) of
        Returned result \<Rightarrow>
          if map_of result (asc ''error'') = None then Some result else last_analysis
      | Raised e \<Rightarrow> last_analysis)"
  using four_fields_no_error [OF four_fields_default]
    four_fields_no_error [OF four_fields_process]
  by (auto simp: analyze_def Let_def error_result_def split: option.splits reply.splits)

text \<open>
  C10, the theorem at a run that returns a record and at a run that returns the dict
  with the key \<open>error\<close> after an earlier record.
\<close>

theorem last_analysis_is_returned_record_witness:
  "snd (analyze cpython (answering reply_empty_field) None a_document) =
     Some [(k_functional, PList []), (k_non_functional, PList []), (k_risks, PList []),
           (k_scenarios, PList [default_scenario])]
   \<and> snd (analyze cpython
            \<lparr>chat_error = None, last_message = Fails (asc ''no reply''),
             save_error = (\<lambda>result. None)\<rparr> (Some default_result) a_document)
       = Some default_result"
proof -
  let ?silent = "\<lparr>chat_error = None, last_message = Fails (asc ''no reply''),
                   save_error = (\<lambda>result. None)\<rparr>"
  have "fst (analyze cpython (answering reply_empty_field) None a_document) =
      Returned (process_response cpython reply_empty_field)"
    by (simp add: analyze_answering)
  moreover have "map_of (process_response cpython reply_empty_field) (asc ''error'') = None"
    by (rule four_fields_no_error [OF four_fields_process])
  ultimately have "snd (analyze cpython (answering reply_empty_field) None a_document) =
      Some (process_response cpython reply_empty_field)"
    using last_analysis_is_returned_record [where P = cpython and C = "answering reply_empty_field"
        and last_analysis = None and doc_content = a_document]
    by simp
  moreover have "fst (analyze cpython ?silent (Some default_result) a_document) =
      Returned (error_result (asc ''no reply''))"
    using document_not_blank by (simp add: analyze_def)
  then have "snd (analyze cpython ?silent (Some default_result) a_document) = Some default_result"
    using last_analysis_is_returned_record [where P = cpython and C = ?silent
        and last_analysis = "Some default_result" and doc_content = a_document]
    by (simp add: error_result_def)
  ultimately show ?thesis by (simp add: run_empty_field)
qed

end
